theory Spec2Isabelle
  imports Complex_Main "HOL-Library.Multiset"
begin

section \<open>Python values\<close>

text \<open>
  The well-log service is written in Python. Its floats are modelled as \<^typ>\<open>real\<close>
  (finite values with exact arithmetic: rounding error, infinities and NaN are outside
  the model), with two exceptions: in the parser NaN cells are a constructor of their
  own, and the correlation functions, whose result depends on rounding, are modelled in
  double arithmetic. \<open>None\<close> is \<^const>\<open>None\<close>, and every exception the modelled code can
  raise is a value of \<open>py_error\<close>.
\<close>

datatype py_error = IndexError | ZeroDivisionError | ValueError | OverflowError

text \<open>\<open>max(a, b)\<close> and \<open>min(a, b)\<close> keep the first argument unless the second is
  strictly larger (smaller).\<close>

definition py_max :: "real \<Rightarrow> real \<Rightarrow> real" where
  "py_max a b = (if a < b then b else a)"

definition py_min :: "real \<Rightarrow> real \<Rightarrow> real" where
  "py_min a b = (if b < a then b else a)"

text \<open>\<open>d.get(k)\<close> on a dictionary whose values may be \<open>None\<close>: a missing key and a
  stored \<open>None\<close> both read as \<open>None\<close>.\<close>

definition dict_get :: "('k \<rightharpoonup> 'v option) \<Rightarrow> 'k \<Rightarrow> 'v option" where
  "dict_get d k = (case d k of None \<Rightarrow> None | Some v \<Rightarrow> v)"

text \<open>\<open>round(x, ndigits)\<close>: to the nearest multiple of \<open>10^-ndigits\<close>, a tie to the
  even one.\<close>

definition round_half_even :: "real \<Rightarrow> int" where
  "round_half_even x =
     (let f = \<lfloor>x\<rfloor>; d = x - of_int f
      in if d < 1/2 then f else if 1/2 < d then f + 1 else if even f then f else f + 1)"

definition py_round :: "real \<Rightarrow> nat \<Rightarrow> real" where
  "py_round x ndigits = of_int (round_half_even (x * 10 ^ ndigits)) / 10 ^ ndigits"

text \<open>\<open>int(x)\<close> on a float truncates towards zero.\<close>

definition py_int :: "real \<Rightarrow> int" where
  "py_int x = (if 0 \<le> x then \<lfloor>x\<rfloor> else \<lceil>x\<rceil>)"

text \<open>\<open>xs[i]\<close>: a negative index counts from the end, an index out of range raises.\<close>

definition py_index :: "'a list \<Rightarrow> int \<Rightarrow> py_error + 'a" where
  "py_index xs i =
     (if i < - int (length xs) \<or> int (length xs) \<le> i then Inl IndexError
      else if i < 0 then Inr (xs ! nat (int (length xs) + i))
      else Inr (xs ! nat i))"

text \<open>\<open>a / b\<close> raises on a zero divisor.\<close>

definition py_div :: "real \<Rightarrow> real \<Rightarrow> py_error + real" where
  "py_div a b = (if b = 0 then Inl ZeroDivisionError else Inr (a / b))"

text \<open>A statement that raises ends the function: the rest runs on a result only.\<close>

definition bind_err :: "py_error + 'a \<Rightarrow> ('a \<Rightarrow> py_error + 'b) \<Rightarrow> py_error + 'b" where
  "bind_err r f = (case r of Inl e \<Rightarrow> Inl e | Inr v \<Rightarrow> f v)"

text \<open>\<open>xs[::stride]\<close> for a stride of at least 1 (the callers pass \<open>max(1, ...)\<close>):
  the elements at the indices 0, stride, 2 stride, ...\<close>

fun slice_step :: "nat \<Rightarrow> 'a list \<Rightarrow> 'a list" where
  "slice_step k [] = []"
| "slice_step k (x # xs) = x # slice_step k (drop (k - 1) xs)"

section \<open>Stored wells (models.py)\<close>

record well =
  well_id :: nat
  well_name :: string
  start_depth :: real
  stop_depth :: real
  depth_unit :: string

record curve =
  curve_well_id :: nat
  mnemonic :: string

text \<open>A \<open>WellData\<close> row: the JSON column \<open>values\<close> maps a mnemonic to a number or null.\<close>

record well_data =
  data_well_id :: nat
  depth :: real
  row_values :: "string \<rightharpoonup> real option"

text \<open>The database session, as far as the service reads it: the three tables.\<close>

record session =
  wells :: "well list"
  curves :: "curve list"
  data_rows :: "well_data list"

section \<open>Depth range of a chat request (routers/chat.py)\<close>

definition normalize_depth_range :: "real option \<Rightarrow> real option \<Rightarrow> well \<Rightarrow> real \<times> real" where
  "normalize_depth_range request_min request_max w =
     (let depth_min0 = (case request_min of Some m \<Rightarrow> m | None \<Rightarrow> start_depth w);
          depth_max0 = (case request_max of Some m \<Rightarrow> m | None \<Rightarrow> stop_depth w);
          depth_min = py_max (start_depth w) (py_min depth_min0 (stop_depth w));
          depth_max = py_max (start_depth w) (py_min depth_max0 (stop_depth w))
      in if depth_min \<ge> depth_max then (start_depth w, stop_depth w)
         else (depth_min, depth_max))"

text \<open>The clamp of one requested bound into the well's extent, in the spec's words.\<close>

definition clamp_to_well :: "well \<Rightarrow> real \<Rightarrow> real" where
  "clamp_to_well w d = max (start_depth w) (min d (stop_depth w))"

section \<open>Depth-indexed queries and statistics (services/data_service.py)\<close>

type_synonym point = "string \<rightharpoonup> real option"

definition get_well_data ::
  "session \<Rightarrow> nat \<Rightarrow> string list \<Rightarrow> real option \<Rightarrow> real option \<Rightarrow> point list" where
  "get_well_data db wid cs depth_min depth_max =
     (let query1 = filter (\<lambda>r. data_well_id r = wid) (data_rows db);
          query2 = (case depth_min of None \<Rightarrow> query1
                    | Some m \<Rightarrow> filter (\<lambda>r. depth r \<ge> m) query1);
          query3 = (case depth_max of None \<Rightarrow> query2
                    | Some m \<Rightarrow> filter (\<lambda>r. depth r \<le> m) query2);
          rows = sort_key depth query3
      in map (\<lambda>row. fold (\<lambda>c pnt. pnt(c \<mapsto> dict_get (row_values row) c)) cs
                        [''depth'' \<mapsto> Some (depth row)]) rows)"

record curve_stats =
  min_stat :: "real option"
  max_stat :: "real option"
  mean_stat :: "real option"
  count_stat :: nat
  non_null_count :: nat

text \<open>The statistics of one curve: the body of the loop of \<open>get_well_statistics\<close>.
  \<open>min\<close> and \<open>max\<close> run over a list that the \<open>if values:\<close> test has found
  non-empty, so they start from its head.\<close>

definition stats_of_curve :: "point list \<Rightarrow> string \<Rightarrow> curve_stats" where
  "stats_of_curve data c =
     (case List.map_filter (\<lambda>p. dict_get p c) data of
        [] \<Rightarrow> \<lparr>min_stat = None, max_stat = None, mean_stat = None,
                count_stat = length data, non_null_count = 0\<rparr>
      | v # vs \<Rightarrow>
          \<lparr>min_stat = Some (py_round (fold (\<lambda>y m. py_min m y) vs v) 4),
           max_stat = Some (py_round (fold (\<lambda>y m. py_max m y) vs v) 4),
           mean_stat = Some (py_round (sum_list (v # vs) / real (length (v # vs))) 4),
           count_stat = length data,
           non_null_count = length (v # vs)\<rparr>)"

definition get_well_statistics ::
  "session \<Rightarrow> nat \<Rightarrow> string list \<Rightarrow> real option \<Rightarrow> real option
     \<Rightarrow> (string \<rightharpoonup> curve_stats)" where
  "get_well_statistics db wid cs depth_min depth_max =
     (let data = get_well_data db wid cs depth_min depth_max
      in fold (\<lambda>c stats. stats(c \<mapsto> stats_of_curve data c)) cs Map.empty)"

text \<open>The samples of a well inside a depth window, in the spec's words: both bounds
  inclusive, an omitted bound unbounded.\<close>

definition samples_in_window :: "session \<Rightarrow> nat \<Rightarrow> real option \<Rightarrow> real option \<Rightarrow> well_data list" where
  "samples_in_window db wid depth_min depth_max =
     filter (\<lambda>r. data_well_id r = wid
                \<and> (case depth_min of None \<Rightarrow> True | Some m \<Rightarrow> m \<le> depth r)
                \<and> (case depth_max of None \<Rightarrow> True | Some m \<Rightarrow> depth r \<le> m))
       (data_rows db)"

section \<open>Diagnostics (services/ai_service.py and routers/chat.py)\<close>

text \<open>\<open>_safe_float\<close> turns what is not a number, and NaN, into \<open>None\<close>; the values of the
  model are numbers or \<open>None\<close> already.\<close>

definition safe_float :: "real option \<Rightarrow> real option" where
  "safe_float v = v"

definition mean :: "real list \<Rightarrow> real option" where
  "mean vs = (if vs = [] then None else Some (sum_list vs / real (length vs)))"

definition percentile :: "real list \<Rightarrow> real \<Rightarrow> py_error + real option" where
  "percentile vs q =
     (if vs = [] then Inr None
      else
        (let sorted_vals = sort vs; n = length sorted_vals
         in if n = 1 then (case py_index sorted_vals 0 of Inl e \<Rightarrow> Inl e | Inr a \<Rightarrow> Inr (Some a))
            else
              (let pos = q * real (n - 1);
                   lo = py_int pos;
                   hi = min (lo + 1) (int n - 1);
                   frac = pos - of_int lo
               in case py_index sorted_vals lo of
                    Inl e \<Rightarrow> Inl e
                  | Inr a \<Rightarrow>
                      (case py_index sorted_vals hi of
                         Inl e \<Rightarrow> Inl e
                       | Inr b \<Rightarrow> Inr (Some (a + frac * (b - a)))))))"

text \<open>The body shared by the two copies of \<open>_trend_label\<close>, which differ in the text of
  the label for too few points only. \<open>values[-window:]\<close> is the last \<open>window\<close> elements.\<close>

definition trend_label_with :: "string \<Rightarrow> real list \<Rightarrow> py_error + string" where
  "trend_label_with insufficient vs =
     (if length vs < 12 then Inr insufficient
      else
        (let window = max 3 (length vs div 5);
             head = mean (take window vs);
             tail = mean (drop (length vs - window) vs)
         in case head of
              None \<Rightarrow> Inr insufficient
            | Some h \<Rightarrow>
                (case tail of
                   None \<Rightarrow> Inr insufficient
                 | Some t \<Rightarrow>
                     (let delta = t - h;
                          scale = py_max (py_max \<bar>h\<bar> \<bar>t\<bar>) (1 / 10 ^ 9)
                      in case py_div delta scale of
                           Inl e \<Rightarrow> Inl e
                         | Inr rel \<Rightarrow>
                             if rel \<ge> 8 / 100 then Inr ''increasing with depth''
                             else if rel \<le> - (8 / 100) then Inr ''decreasing with depth''
                             else Inr ''mostly stable''))))"

text \<open>\<open>_trend_label\<close> of services/ai_service.py.\<close>

definition trend_label :: "real list \<Rightarrow> py_error + string" where
  "trend_label vs = trend_label_with ''insufficient points'' vs"

text \<open>\<open>_trend_label\<close> of routers/chat.py.\<close>

definition chat_trend_label :: "real list \<Rightarrow> py_error + string" where
  "chat_trend_label vs = trend_label_with ''insufficient points for trend'' vs"

subsection \<open>Correlation, in double arithmetic\<close>

text \<open>
  Both correlation functions compare a computed denominator with zero, so rounding
  decides what they return: they are modelled in IEEE 754 binary64 arithmetic. A double
  is a finite value, kept as the real number it denotes, an infinity (\<open>True\<close> marks the
  negative one) or NaN. The two zeros are one value: \<open>==\<close> equates them, a division by
  either raises, and no operation below tells them apart.
\<close>

datatype double = Finite real | Infinity bool | NotANumber

text \<open>Rounding to nearest, ties to even. The doubles around \<open>x\<close> are the multiples of
  \<open>2\<close> to the power \<open>last_place x\<close>: 53 significant bits, and no exponent below
  \<open>- 1074\<close> (the subnormal range). A result that rounds to \<open>2 ^ 1024\<close> or beyond is an
  infinity.\<close>

definition last_place :: "real \<Rightarrow> int" where
  "last_place x = max (\<lfloor>log 2 \<bar>x\<bar>\<rfloor> - 52) (- 1074)"

definition round_double :: "real \<Rightarrow> double" where
  "round_double x =
     (if x = 0 then Finite 0
      else
        (let e = last_place x;
             r = of_int (round_half_even (x / 2 powi e)) * 2 powi e
         in if 2 ^ 1024 \<le> \<bar>r\<bar> then Infinity (x < 0) else Finite r))"

text \<open>\<open>x + y\<close>, \<open>- x\<close>, \<open>x - y\<close> and \<open>x * y\<close> on floats never raise.\<close>

fun float_add :: "double \<Rightarrow> double \<Rightarrow> double" where
  "float_add (Finite x) (Finite y) = round_double (x + y)"
| "float_add (Finite x) (Infinity s) = Infinity s"
| "float_add (Infinity s) (Finite y) = Infinity s"
| "float_add (Infinity s) (Infinity t) = (if s = t then Infinity s else NotANumber)"
| "float_add NotANumber y = NotANumber"
| "float_add x NotANumber = NotANumber"

fun float_neg :: "double \<Rightarrow> double" where
  "float_neg (Finite x) = Finite (- x)"
| "float_neg (Infinity s) = Infinity (\<not> s)"
| "float_neg NotANumber = NotANumber"

definition float_sub :: "double \<Rightarrow> double \<Rightarrow> double" where
  "float_sub x y = float_add x (float_neg y)"

fun float_mul :: "double \<Rightarrow> double \<Rightarrow> double" where
  "float_mul (Finite x) (Finite y) = round_double (x * y)"
| "float_mul (Finite x) (Infinity s) = (if x = 0 then NotANumber else Infinity (s \<noteq> (x < 0)))"
| "float_mul (Infinity s) (Finite y) = (if y = 0 then NotANumber else Infinity (s \<noteq> (y < 0)))"
| "float_mul (Infinity s) (Infinity t) = Infinity (s \<noteq> t)"
| "float_mul NotANumber y = NotANumber"
| "float_mul x NotANumber = NotANumber"

text \<open>\<open>x / y\<close> raises on a zero divisor, whatever \<open>x\<close> is, and overflows silently.\<close>

fun float_truediv :: "double \<Rightarrow> double \<Rightarrow> py_error + double" where
  "float_truediv (Finite x) (Finite y) =
     (if y = 0 then Inl ZeroDivisionError else Inr (round_double (x / y)))"
| "float_truediv (Finite x) (Infinity s) = Inr (Finite 0)"
| "float_truediv (Infinity s) (Finite y) =
     (if y = 0 then Inl ZeroDivisionError else Inr (Infinity (s \<noteq> (y < 0))))"
| "float_truediv (Infinity s) (Infinity t) = Inr NotANumber"
| "float_truediv NotANumber (Finite y) =
     (if y = 0 then Inl ZeroDivisionError else Inr NotANumber)"
| "float_truediv NotANumber (Infinity s) = Inr NotANumber"
| "float_truediv x NotANumber = Inr NotANumber"

text \<open>\<open>x ** 2\<close>: the square of a finite float that overflows raises \<open>OverflowError\<close>.
  The C library's \<open>pow\<close> is taken as correctly rounded; it is exact wherever the square
  is itself a double.\<close>

fun float_square :: "double \<Rightarrow> py_error + double" where
  "float_square (Finite x) =
     (case round_double (x * x) of
        Finite r \<Rightarrow> Inr (Finite r)
      | _ \<Rightarrow> Inl OverflowError)"
| "float_square (Infinity s) = Inr (Infinity False)"
| "float_square NotANumber = Inr NotANumber"

text \<open>\<open>math.sqrt\<close> is correctly rounded and raises below zero.\<close>

fun math_sqrt :: "double \<Rightarrow> py_error + double" where
  "math_sqrt (Finite x) = (if x < 0 then Inl ValueError else Inr (round_double (sqrt x)))"
| "math_sqrt (Infinity s) = (if s then Inl ValueError else Inr (Infinity False))"
| "math_sqrt NotANumber = Inr NotANumber"

text \<open>\<open>abs\<close>, \<open>>=\<close> and \<open>isfinite\<close>, which the compensated summation needs.\<close>

fun float_abs :: "double \<Rightarrow> double" where
  "float_abs (Finite x) = Finite \<bar>x\<bar>"
| "float_abs (Infinity s) = Infinity False"
| "float_abs NotANumber = NotANumber"

fun float_ge :: "double \<Rightarrow> double \<Rightarrow> bool" where
  "float_ge (Finite x) (Finite y) = (y \<le> x)"
| "float_ge (Finite x) (Infinity s) = s"
| "float_ge (Infinity s) (Finite y) = (\<not> s)"
| "float_ge (Infinity s) (Infinity t) = (t \<or> \<not> s)"
| "float_ge NotANumber y = False"
| "float_ge x NotANumber = False"

fun is_finite :: "double \<Rightarrow> bool" where
  "is_finite (Finite x) = True"
| "is_finite x = False"

text \<open>
  The builtin \<open>sum\<close> over floats starts from the integer 0 and adds from left to right.
  Up to CPython 3.11 that is all it does (\<open>float_sum\<close>). From CPython 3.12 on it
  carries Neumaier's compensation term \<open>c\<close> from the second element on and adds it at
  the end when it is finite and not zero (\<open>float_sum_compensated\<close>). The repository
  does not fix the interpreter, so the functions below take the builtin as a parameter.
\<close>

definition float_sum :: "double list \<Rightarrow> double" where
  "float_sum xs = foldl float_add (Finite 0) xs"

fun neumaier :: "double \<Rightarrow> double \<Rightarrow> double list \<Rightarrow> double" where
  "neumaier f_result c [] =
     (if c \<noteq> Finite 0 \<and> is_finite c then float_add f_result c else f_result)"
| "neumaier f_result c (x # xs) =
     (let t = float_add f_result x
      in neumaier t
           (if float_ge (float_abs f_result) (float_abs x)
            then float_add c (float_add (float_sub f_result t) x)
            else float_add c (float_add (float_sub x t) f_result))
           xs)"

fun float_sum_compensated :: "double list \<Rightarrow> double" where
  "float_sum_compensated [] = Finite 0"
| "float_sum_compensated (x # xs) = neumaier (float_add (Finite 0) x) (Finite 0) xs"

text \<open>\<open>sum(f(x) for x in xs)\<close> where \<open>f\<close> may raise: the first element that raises ends
  the sum, otherwise the values are summed.\<close>

fun collect_err :: "(py_error + 'a) list \<Rightarrow> py_error + 'a list" where
  "collect_err [] = Inr []"
| "collect_err (Inl e # rs) = Inl e"
| "collect_err (Inr v # rs) = (case collect_err rs of Inl e \<Rightarrow> Inl e | Inr vs \<Rightarrow> Inr (v # vs))"

text \<open>\<open>_mean\<close> on floats: \<open>len(values)\<close> is converted to the nearest double before the
  division.\<close>

definition float_mean :: "(double list \<Rightarrow> double) \<Rightarrow> double list \<Rightarrow> py_error + double option" where
  "float_mean builtin_sum vs =
     (if vs = [] then Inr None
      else case float_truediv (builtin_sum vs) (round_double (real (length vs))) of
             Inl e \<Rightarrow> Inl e
           | Inr m \<Rightarrow> Inr (Some m))"

text \<open>\<open>_pearson\<close> of services/ai_service.py.\<close>

definition pearson ::
  "(double list \<Rightarrow> double) \<Rightarrow> double list \<Rightarrow> double list \<Rightarrow> py_error + double option" where
  "pearson builtin_sum values_a values_b =
     (let n = min (length values_a) (length values_b)
      in if n < 3 then Inr None
         else
           (let a = take n values_a; b = take n values_b
            in bind_err (float_mean builtin_sum a) (\<lambda>mean_a.
               bind_err (float_mean builtin_sum b) (\<lambda>mean_b.
                 case mean_a of
                   None \<Rightarrow> Inr None
                 | Some ma \<Rightarrow>
                     (case mean_b of
                        None \<Rightarrow> Inr None
                      | Some mb \<Rightarrow>
                          (let numerator =
                                 builtin_sum (map (\<lambda>(x, y). float_mul (float_sub x ma) (float_sub y mb))
                                               (zip a b))
                           in bind_err (collect_err (map (\<lambda>x. float_square (float_sub x ma)) a)) (\<lambda>sq_a.
                              bind_err (collect_err (map (\<lambda>y. float_square (float_sub y mb)) b)) (\<lambda>sq_b.
                              let den_a = builtin_sum sq_a; den_b = builtin_sum sq_b
                              in bind_err (math_sqrt (float_mul den_a den_b)) (\<lambda>denom.
                                   if denom = Finite 0 then Inr None
                                   else bind_err (float_truediv numerator denom) (\<lambda>r. Inr (Some r)))))))))))"

text \<open>\<open>_pearson_correlation\<close> of routers/chat.py: the same statements under other names.\<close>

definition pearson_correlation ::
  "(double list \<Rightarrow> double) \<Rightarrow> double list \<Rightarrow> double list \<Rightarrow> py_error + double option" where
  "pearson_correlation builtin_sum values_a values_b =
     (let n = min (length values_a) (length values_b)
      in if n < 3 then Inr None
         else
           (let a = take n values_a; b = take n values_b
            in bind_err (float_mean builtin_sum a) (\<lambda>mean_a.
               bind_err (float_mean builtin_sum b) (\<lambda>mean_b.
                 case mean_a of
                   None \<Rightarrow> Inr None
                 | Some ma \<Rightarrow>
                     (case mean_b of
                        None \<Rightarrow> Inr None
                      | Some mb \<Rightarrow>
                          (let num =
                                 builtin_sum (map (\<lambda>(x, y). float_mul (float_sub x ma) (float_sub y mb))
                                               (zip a b))
                           in bind_err (collect_err (map (\<lambda>x. float_square (float_sub x ma)) a)) (\<lambda>sq_a.
                              bind_err (collect_err (map (\<lambda>y. float_square (float_sub y mb)) b)) (\<lambda>sq_b.
                              let den_a = builtin_sum sq_a; den_b = builtin_sum sq_b
                              in bind_err (math_sqrt (float_mul den_a den_b)) (\<lambda>den.
                                   if den = Finite 0 then Inr None
                                   else bind_err (float_truediv num den) (\<lambda>r. Inr (Some r)))))))))))"

text \<open>The doubles that the literals \<open>0.1\<close> and \<open>0.7\<close> denote.\<close>

definition tenth :: real where
  "tenth = 3602879701896397 / 2 ^ 55"

definition seven_tenths :: real where
  "seven_tenths = 6305039478318694 / 2 ^ 53"

text \<open>The relative change of the trend rule, in the spec's words.\<close>

definition relative_change :: "real list \<Rightarrow> real" where
  "relative_change vs =
     (let window = max 3 (length vs div 5);
          head_mean = sum_list (take window vs) / real window;
          tail_mean = sum_list (drop (length vs - window) vs) / real window
      in (tail_mean - head_mean) / max (max \<bar>head_mean\<bar> \<bar>tail_mean\<bar>) (1 / 10 ^ 9))"

subsection \<open>Row sampling\<close>

text \<open>The sampling of \<open>_format_query_analytics\<close> (routers/chat.py, \<open>max_rows = 3500\<close>).\<close>

definition sampled_rows :: "'a list \<Rightarrow> 'a list" where
  "sampled_rows rows =
     (let max_rows = 3500;
          stride = max 1 (length rows div max_rows)
      in slice_step stride rows)"

text \<open>\<open>_curve_pairs\<close> (services/ai_service.py); its callers leave \<open>max_rows\<close> at the
  default 4000. A row without a depth or without a value for the curve is skipped.\<close>

definition curve_pairs :: "point list \<Rightarrow> string \<Rightarrow> nat \<Rightarrow> py_error + (real \<times> real) list" where
  "curve_pairs sample_data c max_rows =
     (if sample_data = [] then Inr []
      else if max_rows = 0 then Inl ZeroDivisionError
      else
        (let stride = max 1 (length sample_data div max_rows)
         in Inr (List.map_filter
                   (\<lambda>row. case safe_float (dict_get row ''depth'') of
                             None \<Rightarrow> None
                           | Some d \<Rightarrow>
                               (case safe_float (dict_get row c) of
                                  None \<Rightarrow> None
                                | Some v \<Rightarrow> Some (d, v)))
                   (slice_step stride sample_data))))"

section \<open>Curves mentioned in a chat message (routers/chat.py)\<close>

text \<open>Strings are lists of bytes; \<open>str.upper\<close> is modelled on the ASCII letters.\<close>

definition upper_char :: "char \<Rightarrow> char" where
  "upper_char c =
     (if 97 \<le> (of_char c :: nat) \<and> (of_char c :: nat) \<le> 122
      then char_of ((of_char c :: nat) - 32) else c)"

definition upper :: "string \<Rightarrow> string" where
  "upper s = map upper_char s"

text \<open>\<open>re.sub(r"[^A-Z0-9]", "", text.upper())\<close>.\<close>

definition normalize_token :: "string \<Rightarrow> string" where
  "normalize_token s =
     filter (\<lambda>c. (65 \<le> (of_char c :: nat) \<and> (of_char c :: nat) \<le> 90)
                 \<or> (48 \<le> (of_char c :: nat) \<and> (of_char c :: nat) \<le> 57))
       (upper s)"

fun starts_with :: "string \<Rightarrow> string \<Rightarrow> bool" where
  "starts_with s [] = True"
| "starts_with [] (p # ps) = False"
| "starts_with (c # cs) (p # ps) = (c = p \<and> starts_with cs ps)"

text \<open>\<open>needle in haystack\<close> on strings.\<close>

fun is_substring :: "string \<Rightarrow> string \<Rightarrow> bool" where
  "is_substring needle [] = (needle = [])"
| "is_substring needle (h # hs) = (starts_with (h # hs) needle \<or> is_substring needle hs)"

text \<open>\<open>sorted(names, key=len, reverse=True)\<close> is a stable sort by descending length.\<close>

definition extract_mentioned_curves :: "string \<Rightarrow> string list \<Rightarrow> string list" where
  "extract_mentioned_curves message available_curve_names =
     (if message = [] then []
      else
        (let raw_message = upper message;
             normalized_message = normalize_token message
         in fold (\<lambda>c matches.
                    let curve_upper = upper c;
                        curve_normalized = normalize_token c
                    in if is_substring curve_upper raw_message
                          \<or> (curve_normalized \<noteq> [] \<and> is_substring curve_normalized normalized_message)
                       then (if c \<notin> set matches then matches @ [c] else matches)
                       else matches)
              (sort_key (\<lambda>c. - int (length c)) available_curve_names) []))"

section \<open>The data section of a parsed file (services/las_parser.py)\<close>

text \<open>A cell of the data frame that \<open>lasio\<close> and \<open>pandas\<close> hand over: a float, which may be
  NaN. A record of \<open>df.to_dict('records')\<close> maps a column name to its cell.\<close>

datatype cell = NaN | Num real

text \<open>\<open>df.replace({math.nan: None, null_val: None})\<close> on one cell.\<close>

definition replace_null :: "real \<Rightarrow> cell \<Rightarrow> real option" where
  "replace_null null_val c =
     (case c of NaN \<Rightarrow> None | Num v \<Rightarrow> if v = null_val then None else Some v)"

text \<open>\<open>row.get(col)\<close> on a record of the replaced frame.\<close>

definition row_get :: "real \<Rightarrow> (string \<rightharpoonup> cell) \<Rightarrow> string \<Rightarrow> real option" where
  "row_get null_val row col =
     (case row col of None \<Rightarrow> None | Some c \<Rightarrow> replace_null null_val c)"

record parsed_row =
  parsed_depth :: real
  parsed_values :: "string \<rightharpoonup> real option"

definition build_values :: "real \<Rightarrow> string list \<Rightarrow> (string \<rightharpoonup> cell) \<Rightarrow> (string \<rightharpoonup> real option)" where
  "build_values null_val curve_mnemonics row =
     fold (\<lambda>mn vals. vals(mn \<mapsto> (case row_get null_val row mn of
                                      Some v \<Rightarrow> Some (py_round v 4)
                                    | None \<Rightarrow> None)))
       curve_mnemonics Map.empty"

text \<open>The loop over the records (lines 139 to 161 of \<open>parse_las_file\<close>): a record without
  a depth is skipped.\<close>

definition extract_data_rows ::
  "string \<Rightarrow> real \<Rightarrow> string list \<Rightarrow> (string \<rightharpoonup> cell) list \<Rightarrow> parsed_row list" where
  "extract_data_rows depth_col null_val curve_mnemonics records =
     List.map_filter
       (\<lambda>row. case row_get null_val row depth_col of
                 None \<Rightarrow> None
               | Some d \<Rightarrow> Some \<lparr>parsed_depth = py_round d 4,
                                  parsed_values = build_values null_val curve_mnemonics row\<rparr>)
       records"

text \<open>What the stored value of a raw cell is, in the spec's words: no value for a missing,
  NaN or null-valued cell, else the value rounded to 4 decimals.\<close>

definition stored_cell :: "real \<Rightarrow> cell option \<Rightarrow> real option" where
  "stored_cell null_val c =
     (case c of
        Some (Num v) \<Rightarrow> if v = null_val then None else Some (py_round v 4)
      | _ \<Rightarrow> None)"

definition has_depth :: "string \<Rightarrow> real \<Rightarrow> (string \<rightharpoonup> cell) \<Rightarrow> bool" where
  "has_depth depth_col null_val row =
     (case row depth_col of Some (Num d) \<Rightarrow> d \<noteq> null_val | _ \<Rightarrow> False)"

section \<open>The deterministic interpreter (services/ai_service.py)\<close>

text \<open>The interpretation is a Python dictionary of strings, numbers, lists and
  dictionaries: a JSON value, its objects kept in the order the code writes them.\<close>

datatype json = JStr string | JNum real | JArr "json list" | JObj "(string \<times> json) list"

text \<open>\<open>obj[key]\<close> on a JSON object, for stating what an interpretation holds.\<close>

definition json_get :: "json \<Rightarrow> string \<Rightarrow> json option" where
  "json_get j k = (case j of JObj kvs \<Rightarrow> map_of kvs k | _ \<Rightarrow> None)"

text \<open>\<open>', '.join(xs)\<close>.\<close>

definition join_comma :: "string list \<Rightarrow> string" where
  "join_comma xs = (case xs of [] \<Rightarrow> [] | y # ys \<Rightarrow> fold (\<lambda>s acc. acc @ '', '' @ s) ys y)"

text \<open>\<open>statistics.get(curve, {}).get("non_null_count", 0)\<close>.\<close>

definition stat_non_null :: "(string \<rightharpoonup> curve_stats) \<Rightarrow> string \<Rightarrow> nat" where
  "stat_non_null statistics c = (case statistics c of None \<Rightarrow> 0 | Some s \<Rightarrow> non_null_count s)"

text \<open>\<open>_safe_float(statistics.get(curve_name, {}).get(key)) or 0.0\<close>.\<close>

definition stat_or_zero :: "(curve_stats \<Rightarrow> real option) \<Rightarrow> (string \<rightharpoonup> curve_stats) \<Rightarrow> string \<Rightarrow> real" where
  "stat_or_zero field statistics c =
     (case statistics c of
        None \<Rightarrow> 0
      | Some s \<Rightarrow> (case safe_float (field s) of None \<Rightarrow> 0 | Some v \<Rightarrow> v))"

definition stat_mean :: "(string \<rightharpoonup> curve_stats) \<Rightarrow> string \<Rightarrow> real" where
  "stat_mean statistics c = stat_or_zero mean_stat statistics c"

text \<open>\<open>sorted(cs, key=stat_mean, reverse=True)\<close>: stable, by descending mean.\<close>

definition sorted_by_mean :: "(string \<rightharpoonup> curve_stats) \<Rightarrow> string list \<Rightarrow> string list" where
  "sorted_by_mean statistics cs = sort_key (\<lambda>c. - stat_mean statistics c) cs"

definition is_hydro_name :: "string \<Rightarrow> bool" where
  "is_hydro_name c =
     (is_substring ''HC'' (upper c) \<or> is_substring ''GAS'' (upper c) \<or> starts_with (upper c) ''C'')"

text \<open>\<open>any(x in c.upper() for x in xs)\<close>.\<close>

definition has_any :: "string list \<Rightarrow> string \<Rightarrow> bool" where
  "has_any xs c = list_ex (\<lambda>x. is_substring x (upper c)) xs"

text \<open>The inner function \<open>high_interval\<close>: the depth interval of the values at or above
  the 0.9 percentile, with the threshold.\<close>

definition high_interval :: "point list \<Rightarrow> string \<Rightarrow> py_error + (real \<times> real \<times> real) option" where
  "high_interval sample_data curve_name =
     bind_err (curve_pairs sample_data curve_name 4000) (\<lambda>pairs.
       if length pairs < 8 then Inr None
       else
         bind_err (percentile (map snd pairs) (9 / 10)) (\<lambda>threshold.
           case threshold of
             None \<Rightarrow> Inr None
           | Some th \<Rightarrow>
               (case map fst (filter (\<lambda>(d, v). v \<ge> th) pairs) of
                  [] \<Rightarrow> Inr None
                | d # ds \<Rightarrow>
                    Inr (Some (py_round (fold (\<lambda>y m. py_min m y) ds d) 1,
                               py_round (fold (\<lambda>y m. py_max m y) ds d) 1,
                               th)))))"

text \<open>One entry of \<open>gas_shows\<close>; \<open>fmt\<close> is the text Python prints for a float.\<close>

definition gas_show :: "(real \<Rightarrow> string) \<Rightarrow> string \<Rightarrow> string \<Rightarrow> real \<times> real \<times> real \<Rightarrow> json" where
  "gas_show fmt curve_name confidence interval =
     (case interval of
        (top_d, bot_d, threshold) \<Rightarrow>
          JObj [(''depth_top'', JNum top_d),
                (''depth_bottom'', JNum bot_d),
                (''analysis'',
                   JStr (curve_name @ '' exceeds its high-response threshold (''
                         @ fmt (py_round threshold 3)
                         @ '') indicating concentrated hydrocarbon response.'')),
                (''fluid_probability'', JStr confidence),
                (''geological_context'',
                   JStr (''High-response band driven by '' @ curve_name @ '' in this interval.''))])"

text \<open>The loop over the primary and the secondary curve.\<close>

definition gas_shows_of :: "(real \<Rightarrow> string) \<Rightarrow> point list \<Rightarrow> string \<Rightarrow> string \<Rightarrow> py_error + json list" where
  "gas_shows_of fmt sample_data primary_curve secondary_curve =
     bind_err (high_interval sample_data primary_curve) (\<lambda>i1.
       bind_err (high_interval sample_data secondary_curve) (\<lambda>i2.
         Inr ((case i1 of None \<Rightarrow> [] | Some iv \<Rightarrow> [gas_show fmt primary_curve ''High'' iv])
              @ (case i2 of None \<Rightarrow> [] | Some iv \<Rightarrow> [gas_show fmt secondary_curve ''Med'' iv]))))"

text \<open>The inner function \<open>zone_intensity\<close>, with \<open>ranked_hydro[:3]\<close> as \<open>top3\<close>.\<close>

definition zone_intensity :: "point list \<Rightarrow> string list \<Rightarrow> real \<Rightarrow> real \<Rightarrow> real" where
  "zone_intensity sample_data top3 start_d end_d =
     (if sample_data = [] then 0
      else
        (let vals = List.map_filter
               (\<lambda>row. case safe_float (dict_get row ''depth'') of
                         None \<Rightarrow> None
                       | Some d \<Rightarrow>
                           if d < start_d \<or> d > end_d then None
                           else
                             (let curve_vals = List.map_filter (\<lambda>c. safe_float (dict_get row c)) top3
                              in if curve_vals = [] then None
                                 else Some (sum_list curve_vals / real (length curve_vals))))
               sample_data
         in case mean vals of None \<Rightarrow> 0 | Some m \<Rightarrow> m))"

text \<open>One entry of \<open>zones\<close>.\<close>

definition zone_entry ::
  "(real \<Rightarrow> string) \<Rightarrow> string list \<Rightarrow> real \<Rightarrow> real \<Rightarrow> real \<Rightarrow> real \<Rightarrow> py_error + json" where
  "zone_entry fmt top3 overall_intensity intensity start_d end_d =
     bind_err (if overall_intensity > 0
               then py_div intensity (py_max overall_intensity (1 / 10 ^ 9))
               else Inr 0) (\<lambda>relative.
       Inr (JObj [(''depth_top'', JNum (py_round start_d 1)),
                  (''depth_bottom'', JNum (py_round end_d 1)),
                  (''characterization'',
                     JStr (if relative \<ge> 12 / 10 then ''gas-enriched zone''
                           else if relative \<ge> 85 / 100 then ''mixed fluid zone''
                           else ''lower-intensity hydrocarbon zone'')),
                  (''key_markers'',
                     JStr (''Relative hydrocarbon intensity='' @ fmt (py_round relative 2)
                           @ '' using '' @ join_comma top3))]))"

text \<open>The fixed interpretation returned when no curve has a valid sample.\<close>

definition insufficient_interpretation :: "(real \<Rightarrow> string) \<Rightarrow> string \<Rightarrow> real \<Rightarrow> real \<Rightarrow> json" where
  "insufficient_interpretation fmt wname depth_min depth_max =
     JObj [(''summary'',
              JStr (''No valid numeric samples were found in '' @ fmt depth_min @ ''-''
                    @ fmt depth_max @ '' for well '' @ [CHR 0x27] @ wname @ [CHR 0x27] @ ''.'')),
           (''geochemical_metrics'',
              JObj [(''wetness_index'', JStr ''n/a, insufficient data''),
                    (''balance_ratio'', JStr ''n/a, insufficient data''),
                    (''character_ratio'', JStr ''n/a, insufficient data'')]),
           (''gas_shows'', JArr []),
           (''fluid_type'', JStr ''insufficient data''),
           (''fluid_evidence'',
              JStr ''No curves with valid points were available in the selected interval.''),
           (''risk_profile'',
              JObj [(''seal_risk'', JStr ''High''),
                    (''saturation_risk'', JStr ''High''),
                    (''technical_summary'',
                       JStr ''Interpretation confidence is low due to missing valid curve values.'')]),
           (''zones'', JArr []),
           (''recommendations'',
              JArr [JStr ''Verify data quality and null-value handling for the selected interval.'',
                    JStr ''Expand depth interval or include additional valid curves before interpretation.''])]"

text \<open>The interpretation built from the ranked curves, once every number is there.\<close>

definition derived_interpretation ::
  "(real \<Rightarrow> string) \<Rightarrow> real \<Rightarrow> real \<Rightarrow> string \<Rightarrow> string \<Rightarrow> real \<Rightarrow> real
     \<Rightarrow> real \<Rightarrow> real \<Rightarrow> real \<Rightarrow> string \<Rightarrow> json list \<Rightarrow> json list \<Rightarrow> real
     \<Rightarrow> string \<Rightarrow> string \<Rightarrow> json" where
  "derived_interpretation fmt depth_min depth_max primary_curve secondary_curve primary_mean
       secondary_mean wetness balance character fluid_type gas_shows zones variability
       seal_risk saturation_risk =
     JObj [(''summary'',
              JStr (''In '' @ fmt (py_round depth_min 1) @ ''-'' @ fmt (py_round depth_max 1)
                    @ '', strongest responses are driven by '' @ primary_curve @ '' (mean ''
                    @ fmt (py_round primary_mean 3) @ '') and '' @ secondary_curve @ '' (mean ''
                    @ fmt (py_round secondary_mean 3) @ ''), with inferred '' @ fluid_type @ ''.'')),
           (''geochemical_metrics'',
              JObj [(''wetness_index'', JStr (fmt (py_round wetness 4) @ '' (derived)'')),
                    (''balance_ratio'', JStr (fmt (py_round balance 4) @ '' (derived)'')),
                    (''character_ratio'', JStr (fmt (py_round character 4) @ '' (derived)''))]),
           (''gas_shows'', JArr gas_shows),
           (''fluid_type'', JStr fluid_type),
           (''fluid_evidence'',
              JStr (''Primary evidence: '' @ primary_curve @ '' and '' @ secondary_curve
                    @ '' high-response intervals, wetness index '' @ fmt (py_round wetness 3)
                    @ '', and variability ratio '' @ fmt (py_round variability 3) @ ''.'')),
           (''risk_profile'',
              JObj [(''seal_risk'', JStr seal_risk),
                    (''saturation_risk'', JStr saturation_risk),
                    (''technical_summary'',
                       JStr (''Seal risk '' @ seal_risk @ '' and saturation risk ''
                             @ saturation_risk @ '' derived from '' @ primary_curve
                             @ '' variability and deep-to-shallow intensity contrast.''))]),
           (''zones'', JArr zones),
           (''recommendations'',
              JArr [JStr (''Validate '' @ primary_curve @ '' and '' @ secondary_curve
                          @ '' with complementary petrophysical logs.''),
                    JStr ''Run focused sampling/coring across highest-response intervals to confirm fluid typing.'',
                    JStr ''Cross-check drilling parameters versus hydrocarbon intensity transitions between zones.''])]"

definition fallback_interpretation ::
  "(real \<Rightarrow> string) \<Rightarrow> string \<Rightarrow> string list \<Rightarrow> real \<Rightarrow> real
     \<Rightarrow> (string \<rightharpoonup> curve_stats) \<Rightarrow> point list option \<Rightarrow> py_error + json" where
  "fallback_interpretation fmt wname cs depth_min depth_max statistics sample_data_arg =
     (let sample_data = (case sample_data_arg of None \<Rightarrow> [] | Some d \<Rightarrow> d);
          valid_curves = filter (\<lambda>c. stat_non_null statistics c > 0) cs
      in if valid_curves = []
         then Inr (insufficient_interpretation fmt wname depth_min depth_max)
         else
           (let hydro = filter is_hydro_name valid_curves;
                hydro_candidates =
                  (if hydro = [] then take 4 (sorted_by_mean statistics valid_curves) else hydro);
                ranked_hydro = sorted_by_mean statistics hydro_candidates
            in
            bind_err (py_index ranked_hydro 0) (\<lambda>primary_curve.
            bind_err (if length ranked_hydro > 1 then py_index ranked_hydro 1
                      else py_index ranked_hydro 0) (\<lambda>secondary_curve.
            let light_means = map (stat_mean statistics)
                                (filter (has_any [''HC1'', ''HC2'', ''HC3'']) ranked_hydro);
                heavy_means = map (stat_mean statistics)
                                (filter (has_any [''HC4'', ''HC5'', ''HC6'', ''HC7'']) ranked_hydro);
                total_light = sum_list light_means;
                total_heavy = sum_list heavy_means
            in
            bind_err (if total_light + total_heavy > 0
                      then py_div total_heavy (total_light + total_heavy) else Inr 0) (\<lambda>wetness.
            bind_err (if statistics ''TOTAL_GAS'' \<noteq> None
                      then py_div (stat_mean statistics ''TOTAL_GAS'')
                             (py_max (stat_mean statistics primary_curve) (1 / 10 ^ 9))
                      else Inr (stat_mean statistics primary_curve)) (\<lambda>balance.
            bind_err (if total_light > 0
                      then py_div total_heavy (py_max total_light (1 / 10 ^ 9))
                      else Inr total_heavy) (\<lambda>character.
            let fluid_type =
                  (if wetness \<le> 17 / 100 then ''dry gas system''
                   else if wetness \<le> 40 / 100 then ''gas-prone hydrocarbon system''
                   else if wetness \<le> 65 / 100 then ''mixed gas and oil system''
                   else ''oil-prone or condensate-rich system'')
            in
            bind_err (gas_shows_of fmt sample_data primary_curve secondary_curve) (\<lambda>gas_shows.
            let b1 = depth_min + (depth_max - depth_min) / 3;
                b2 = depth_min + 2 * (depth_max - depth_min) / 3;
                top3 = take 3 ranked_hydro;
                i1 = zone_intensity sample_data top3 depth_min b1;
                i2 = zone_intensity sample_data top3 b1 b2;
                i3 = zone_intensity sample_data top3 b2 depth_max;
                overall_intensity = (case mean [i1, i2, i3] of None \<Rightarrow> 0 | Some m \<Rightarrow> m)
            in
            bind_err (zone_entry fmt top3 overall_intensity i1 depth_min b1) (\<lambda>z1.
            bind_err (zone_entry fmt top3 overall_intensity i2 b1 b2) (\<lambda>z2.
            bind_err (zone_entry fmt top3 overall_intensity i3 b2 depth_max) (\<lambda>z3.
            let p_min = stat_or_zero min_stat statistics primary_curve;
                p_max = stat_or_zero max_stat statistics primary_curve;
                p_mean = py_max (stat_or_zero mean_stat statistics primary_curve) (1 / 10 ^ 9)
            in
            bind_err (py_div (p_max - p_min) p_mean) (\<lambda>variability.
            let deep_intensity = i3;
                shallow_intensity = i1;
                seal_risk = (if variability > 22 / 10 then ''High''
                             else if variability > 12 / 10 then ''Med'' else ''Low'');
                saturation_risk =
                  (if deep_intensity < 55 / 100 * py_max shallow_intensity (1 / 10 ^ 9) then ''High''
                   else if deep_intensity < 8 / 10 * py_max shallow_intensity (1 / 10 ^ 9) then ''Med''
                   else ''Low'')
            in
            Inr (derived_interpretation fmt depth_min depth_max primary_curve secondary_curve
                   (stat_mean statistics primary_curve) (stat_mean statistics secondary_curve)
                   wetness balance character fluid_type gas_shows [z1, z2, z3] variability
                   seal_risk saturation_risk)))))))))))))"

text \<open>The keys of the interpretation schema.\<close>

definition interpretation_keys :: "string list" where
  "interpretation_keys =
     [''summary'', ''geochemical_metrics'', ''gas_shows'', ''fluid_type'', ''fluid_evidence'',
      ''risk_profile'', ''zones'', ''recommendations'']"

text \<open>A result that is an interpretation: the function returned (it did not raise) a
  JSON object with exactly the keys of the schema, in the order of the schema.\<close>

definition is_interpretation :: "py_error + json \<Rightarrow> bool" where
  "is_interpretation r =
     (case r of Inr (JObj kvs) \<Rightarrow> map fst kvs = interpretation_keys | _ \<Rightarrow> False)"

section \<open>The interpretation route (routers/interpretation.py)\<close>

record interpretation_request =
  req_curves :: "string list"
  req_depth_min :: real
  req_depth_max :: real

text \<open>\<open>HTTPException(status_code, detail)\<close>. The detail of the invalid-curves error
  joins a Python set, whose order is not fixed, so it is kept as the set.\<close>

datatype detail =
    Well_not_found
  | Invalid_curves "string set"
  | Depth_min_must_be_less_than_depth_max

datatype http_exception = HTTPException nat detail

record 'i interpretation_response =
  resp_well_id :: nat
  resp_well_name :: string
  resp_depth_range :: "real \<times> real \<times> string"
  curves_analyzed :: "string list"
  resp_interpretation :: 'i

text \<open>The service calls the route makes, in order, so that what it computes before
  raising can be stated.\<close>

datatype service_call = Get_well_statistics | Get_well_data | Interpret_well_data

text \<open>\<open>interpret_well_data\<close> asks the generative backend and is a parameter here.\<close>

definition interpret_endpoint ::
  "(string \<Rightarrow> string list \<Rightarrow> real \<Rightarrow> real \<Rightarrow> (string \<rightharpoonup> curve_stats) \<Rightarrow> point list \<Rightarrow> 'i)
     \<Rightarrow> nat \<Rightarrow> interpretation_request \<Rightarrow> session
     \<Rightarrow> service_call list \<times> (http_exception + 'i interpretation_response)" where
  "interpret_endpoint interpret_well_data wid request db =
     (case find (\<lambda>w. well_id w = wid) (wells db) of
        None \<Rightarrow> ([], Inl (HTTPException 404 Well_not_found))
      | Some w \<Rightarrow>
          (let available = mnemonic ` set (filter (\<lambda>c. curve_well_id c = wid) (curves db));
               invalid = set (req_curves request) - available
           in if invalid \<noteq> {} then ([], Inl (HTTPException 400 (Invalid_curves invalid)))
              else if req_depth_min request \<ge> req_depth_max request
                then ([], Inl (HTTPException 400 Depth_min_must_be_less_than_depth_max))
              else
                (let stats = get_well_statistics db wid (req_curves request)
                               (Some (req_depth_min request)) (Some (req_depth_max request));
                     data = get_well_data db wid (req_curves request)
                               (Some (req_depth_min request)) (Some (req_depth_max request));
                     interp = interpret_well_data (well_name w) (req_curves request)
                               (req_depth_min request) (req_depth_max request) stats data
                 in ([Get_well_statistics, Get_well_data, Interpret_well_data],
                     Inr \<lparr>resp_well_id = well_id w, resp_well_name = well_name w,
                          resp_depth_range =
                            (req_depth_min request, req_depth_max request, depth_unit w),
                          curves_analyzed = req_curves request,
                          resp_interpretation = interp\<rparr>))))"

section \<open>Verified properties\<close>

lemma py_max_eq_max: "py_max a b = max a b"
  by (simp add: py_max_def max_def)

lemma py_min_eq_min: "py_min a b = min a b"
  by (simp add: py_min_def min_def)

subsection \<open>Chat-path depth normalization\<close>

lemma if_le_swap: "(if (b::real) \<le> a then x else y) = (if a < b then y else x)"
  by auto

lemma normalize_depth_range_clamped:
  "normalize_depth_range rmin rmax w =
     (let a = clamp_to_well w (case rmin of Some m \<Rightarrow> m | None \<Rightarrow> start_depth w);
          b = clamp_to_well w (case rmax of Some m \<Rightarrow> m | None \<Rightarrow> stop_depth w)
      in if a < b then (a, b) else (start_depth w, stop_depth w))"
  by (simp only: normalize_depth_range_def clamp_to_well_def py_max_eq_max py_min_eq_min
      Let_def if_le_swap)

text \<open>
  C10. Normalizing the depth range of a chat request is a total function (it has no
  failing branch), and for a well with \<open>start_depth < stop_depth\<close> and any pair of
  optional bounds the returned pair satisfies
  \<open>start_depth \<le> depth_min < depth_max \<le> stop_depth\<close>. An omitted bound stands
  for the matching end of the well, every bound is clamped into the well's extent, and
  when the clamped bounds satisfy \<open>depth_min \<ge> depth_max\<close> the whole extent of the
  well is returned in place of an error.
\<close>

theorem normalize_depth_range_within_well:
  assumes "start_depth w < stop_depth w"
  shows "start_depth w \<le> fst (normalize_depth_range rmin rmax w)
       \<and> fst (normalize_depth_range rmin rmax w) < snd (normalize_depth_range rmin rmax w)
       \<and> snd (normalize_depth_range rmin rmax w) \<le> stop_depth w
       \<and> normalize_depth_range None None w = (start_depth w, stop_depth w)
       \<and> normalize_depth_range None (Some hi) w = normalize_depth_range (Some (start_depth w)) (Some hi) w
       \<and> normalize_depth_range (Some lo) None w = normalize_depth_range (Some lo) (Some (stop_depth w)) w
       \<and> (clamp_to_well w lo < clamp_to_well w hi \<longrightarrow>
            normalize_depth_range (Some lo) (Some hi) w = (clamp_to_well w lo, clamp_to_well w hi))
       \<and> (clamp_to_well w lo \<ge> clamp_to_well w hi \<longrightarrow>
            normalize_depth_range (Some lo) (Some hi) w = (start_depth w, stop_depth w))"
proof -
  let ?a = "clamp_to_well w (case rmin of Some m \<Rightarrow> m | None \<Rightarrow> start_depth w)"
  let ?b = "clamp_to_well w (case rmax of Some m \<Rightarrow> m | None \<Rightarrow> stop_depth w)"
  have lo_a: "start_depth w \<le> ?a" and hi_b: "?b \<le> stop_depth w"
    using assms by (simp_all add: clamp_to_well_def)
  have bounds: "start_depth w \<le> fst (normalize_depth_range rmin rmax w)
       \<and> fst (normalize_depth_range rmin rmax w) < snd (normalize_depth_range rmin rmax w)
       \<and> snd (normalize_depth_range rmin rmax w) \<le> stop_depth w"
  proof (cases "?a < ?b")
    case True
    then have "normalize_depth_range rmin rmax w = (?a, ?b)"
      by (simp add: normalize_depth_range_clamped Let_def)
    with True lo_a hi_b show ?thesis by simp
  next
    case False
    then have "normalize_depth_range rmin rmax w = (start_depth w, stop_depth w)"
      by (simp add: normalize_depth_range_clamped Let_def)
    with assms show ?thesis by simp
  qed
  have full: "normalize_depth_range None None w = (start_depth w, stop_depth w)"
    using assms by (simp add: normalize_depth_range_clamped clamp_to_well_def Let_def)
  have omit_lo: "normalize_depth_range None (Some hi) w
      = normalize_depth_range (Some (start_depth w)) (Some hi) w"
    by (simp add: normalize_depth_range_def)
  have omit_hi: "normalize_depth_range (Some lo) None w
      = normalize_depth_range (Some lo) (Some (stop_depth w)) w"
    by (simp add: normalize_depth_range_def)
  have clamped: "clamp_to_well w lo < clamp_to_well w hi \<longrightarrow>
      normalize_depth_range (Some lo) (Some hi) w = (clamp_to_well w lo, clamp_to_well w hi)"
    by (simp add: normalize_depth_range_clamped Let_def)
  have fallback: "clamp_to_well w lo \<ge> clamp_to_well w hi \<longrightarrow>
      normalize_depth_range (Some lo) (Some hi) w = (start_depth w, stop_depth w)"
    by (simp add: normalize_depth_range_clamped Let_def)
  from bounds full omit_lo omit_hi clamped fallback show ?thesis by simp
qed

theorem normalize_depth_range_within_well_witness:
  "start_depth \<lparr>well_id = 1, well_name = ''W'', start_depth = 100, stop_depth = 200, depth_unit = ''F''\<rparr>
     < stop_depth \<lparr>well_id = 1, well_name = ''W'', start_depth = 100, stop_depth = 200, depth_unit = ''F''\<rparr>
   \<and> normalize_depth_range (Some 50) (Some 150)
        \<lparr>well_id = 1, well_name = ''W'', start_depth = 100, stop_depth = 200, depth_unit = ''F''\<rparr> = (100, 150)
   \<and> normalize_depth_range (Some 180) (Some 120)
        \<lparr>well_id = 1, well_name = ''W'', start_depth = 100, stop_depth = 200, depth_unit = ''F''\<rparr> = (100, 200)
   \<and> normalize_depth_range (Some 500) (Some 900)
        \<lparr>well_id = 1, well_name = ''W'', start_depth = 100, stop_depth = 200, depth_unit = ''F''\<rparr> = (100, 200)"
proof -
  let ?w = "\<lparr>well_id = 1, well_name = ''W'', start_depth = 100, stop_depth = 200, depth_unit = ''F''\<rparr>"
  have h: "start_depth ?w < stop_depth ?w" by simp
  have a: "clamp_to_well ?w 50 < clamp_to_well ?w 150" by (simp add: clamp_to_well_def)
  have b: "clamp_to_well ?w 180 \<ge> clamp_to_well ?w 120" by (simp add: clamp_to_well_def)
  have c: "clamp_to_well ?w 500 \<ge> clamp_to_well ?w 900" by (simp add: clamp_to_well_def)
  from normalize_depth_range_within_well [OF h, where lo = 50 and hi = 150] a
  have "normalize_depth_range (Some 50) (Some 150) ?w = (100, 150)"
    by (simp add: clamp_to_well_def)
  moreover from normalize_depth_range_within_well [OF h, where lo = 180 and hi = 120] b
  have "normalize_depth_range (Some 180) (Some 120) ?w = (100, 200)"
    by (simp add: clamp_to_well_def)
  moreover from normalize_depth_range_within_well [OF h, where lo = 500 and hi = 900] c
  have "normalize_depth_range (Some 500) (Some 900) ?w = (100, 200)"
    by (simp add: clamp_to_well_def)
  ultimately show ?thesis using h by simp
qed

subsection \<open>Depth range of an interpretation request\<close>

text \<open>
  C9. On the interpretation route a request whose \<open>depth_min\<close> is greater than or
  equal to its \<open>depth_max\<close> is never answered: the route raises, and it does so before
  any statistics, data or interpretation call is made. When the well exists and every
  requested curve is one of its curves, the error raised is the invalid-range error
  (HTTP 400, "depth_min must be less than depth_max."); the range is not re-interpreted.
\<close>

theorem interpret_rejects_invalid_range:
  assumes "req_depth_min request \<ge> req_depth_max request"
  shows "(\<exists>e. snd (interpret_endpoint ai wid request db) = Inl e)
       \<and> fst (interpret_endpoint ai wid request db) = []
       \<and> (find (\<lambda>w. well_id w = wid) (wells db) \<noteq> None
            \<and> set (req_curves request)
                 \<subseteq> mnemonic ` set (filter (\<lambda>c. curve_well_id c = wid) (curves db))
          \<longrightarrow> snd (interpret_endpoint ai wid request db)
                = Inl (HTTPException 400 Depth_min_must_be_less_than_depth_max))"
  using assms by (auto simp: interpret_endpoint_def Let_def split: option.splits)

theorem interpret_rejects_invalid_range_witness:
  "req_depth_min \<lparr>req_curves = [''HC1''], req_depth_min = 300, req_depth_max = 200\<rparr>
     \<ge> req_depth_max \<lparr>req_curves = [''HC1''], req_depth_min = 300, req_depth_max = 200\<rparr>
   \<and> interpret_endpoint (\<lambda>n cs a b st d. ()) 1
        \<lparr>req_curves = [''HC1''], req_depth_min = 300, req_depth_max = 200\<rparr>
        \<lparr>wells = [\<lparr>well_id = 1, well_name = ''W'', start_depth = 100, stop_depth = 400,
                    depth_unit = ''F''\<rparr>],
         curves = [\<lparr>curve_well_id = 1, mnemonic = ''HC1''\<rparr>],
         data_rows = [\<lparr>data_well_id = 1, depth = 250, row_values = [''HC1'' \<mapsto> Some 3]\<rparr>]\<rparr>
      = ([], Inl (HTTPException 400 Depth_min_must_be_less_than_depth_max))"
proof -
  let ?rq = "\<lparr>req_curves = [''HC1''], req_depth_min = 300, req_depth_max = 200\<rparr>"
  let ?db = "\<lparr>wells = [\<lparr>well_id = 1, well_name = ''W'', start_depth = 100, stop_depth = 400,
                    depth_unit = ''F''\<rparr>],
         curves = [\<lparr>curve_well_id = 1, mnemonic = ''HC1''\<rparr>],
         data_rows = [\<lparr>data_well_id = 1, depth = 250, row_values = [''HC1'' \<mapsto> Some 3]\<rparr>]\<rparr>"
  have h: "req_depth_min ?rq \<ge> req_depth_max ?rq" by simp
  have found: "find (\<lambda>w. well_id w = 1) (wells ?db) \<noteq> None" by simp
  have known: "set (req_curves ?rq)
      \<subseteq> mnemonic ` set (filter (\<lambda>c. curve_well_id c = 1) (curves ?db))" by simp
  from interpret_rejects_invalid_range [OF h, of "\<lambda>n cs a b st d. ()" 1 ?db] found known
  have "fst (interpret_endpoint (\<lambda>n cs a b st d. ()) 1 ?rq ?db) = []
      \<and> snd (interpret_endpoint (\<lambda>n cs a b st d. ()) 1 ?rq ?db)
          = Inl (HTTPException 400 Depth_min_must_be_less_than_depth_max)"
    by blast
  then have "interpret_endpoint (\<lambda>n cs a b st d. ()) 1 ?rq ?db
      = ([], Inl (HTTPException 400 Depth_min_must_be_less_than_depth_max))"
    by (simp add: prod_eq_iff)
  with h show ?thesis by blast
qed

subsection \<open>Statistics\<close>

lemma fold_map_upd:
  "fold (\<lambda>c m. m(c \<mapsto> f c)) cs m0 k = (if k \<in> set cs then Some (f k) else m0 k)"
  by (induction cs arbitrary: m0) auto

lemma get_well_statistics_lookup:
  "get_well_statistics db wid cs dmin dmax c =
     (if c \<in> set cs then Some (stats_of_curve (get_well_data db wid cs dmin dmax) c) else None)"
  by (simp add: get_well_statistics_def Let_def fold_map_upd)

lemma length_get_well_data:
  "length (get_well_data db wid cs dmin dmax) = length (samples_in_window db wid dmin dmax)"
proof -
  have "filter (\<lambda>r. depth r \<le> b) (filter (\<lambda>r. a \<le> depth r) (filter (\<lambda>r. data_well_id r = wid) xs))
      = filter (\<lambda>r. data_well_id r = wid \<and> a \<le> depth r \<and> depth r \<le> b) xs" for a b xs
    by (induction xs) auto
  then show ?thesis
    by (cases dmin; cases dmax)
       (simp_all add: get_well_data_def samples_in_window_def Let_def conj_commute)
qed

lemma stats_of_curve_count: "count_stat (stats_of_curve data c) = length data"
  by (simp add: stats_of_curve_def split: list.splits)

lemma stats_of_curve_non_null:
  "non_null_count (stats_of_curve data c) = length (List.map_filter (\<lambda>p. dict_get p c) data)"
  by (simp add: stats_of_curve_def split: list.splits)

lemma stats_of_curve_no_data:
  "non_null_count (stats_of_curve data c) = 0 \<Longrightarrow>
     min_stat (stats_of_curve data c) = None \<and> max_stat (stats_of_curve data c) = None
     \<and> mean_stat (stats_of_curve data c) = None"
  by (simp add: stats_of_curve_def split: list.splits)

text \<open>
  C5. In the result of \<open>get_well_statistics\<close> every requested curve has an entry; its
  \<open>count\<close> is the number of stored samples of the well inside the queried window, the
  same number for every curve; whenever its \<open>non_null_count\<close> is 0 its \<open>min\<close>,
  \<open>max\<close> and \<open>mean\<close> are \<open>None\<close> (not 0); no other curve has an entry, so an empty
  curve list gives the empty mapping.
\<close>

theorem get_well_statistics_count_and_undefined:
  "(\<forall>c \<in> set cs. \<exists>s. get_well_statistics db wid cs dmin dmax c = Some s
        \<and> count_stat s = length (samples_in_window db wid dmin dmax)
        \<and> (non_null_count s = 0 \<longrightarrow>
             min_stat s = None \<and> max_stat s = None \<and> mean_stat s = None))
   \<and> dom (get_well_statistics db wid cs dmin dmax) = set cs
   \<and> get_well_statistics db wid [] dmin dmax = Map.empty"
proof -
  have each: "\<forall>c \<in> set cs. \<exists>s. get_well_statistics db wid cs dmin dmax c = Some s
        \<and> count_stat s = length (samples_in_window db wid dmin dmax)
        \<and> (non_null_count s = 0 \<longrightarrow>
             min_stat s = None \<and> max_stat s = None \<and> mean_stat s = None)"
    using stats_of_curve_no_data
    by (simp add: get_well_statistics_lookup stats_of_curve_count length_get_well_data)
  have keys: "dom (get_well_statistics db wid cs dmin dmax) = set cs"
    by (auto simp: get_well_statistics_lookup dom_def)
  have none: "get_well_statistics db wid [] dmin dmax = Map.empty"
    by (simp add: get_well_statistics_def)
  from each keys none show ?thesis by blast
qed

theorem get_well_statistics_count_and_undefined_witness:
  "''HC2'' \<in> set [''HC1'', ''HC2'']
   \<and> (\<exists>s. get_well_statistics
         \<lparr>wells = [], curves = [],
          data_rows = [\<lparr>data_well_id = 1, depth = 20, row_values = [''HC1'' \<mapsto> Some 4, ''HC2'' \<mapsto> None]\<rparr>,
                       \<lparr>data_well_id = 2, depth = 15, row_values = [''HC1'' \<mapsto> Some 9, ''HC2'' \<mapsto> Some 1]\<rparr>,
                       \<lparr>data_well_id = 1, depth = 10, row_values = [''HC1'' \<mapsto> Some 2, ''HC2'' \<mapsto> None]\<rparr>]\<rparr>
         1 [''HC1'', ''HC2''] None None ''HC2'' = Some s
        \<and> count_stat s = 2 \<and> non_null_count s = 0
        \<and> min_stat s = None \<and> max_stat s = None \<and> mean_stat s = None)"
proof -
  define db where "db = \<lparr>wells = [], curves = [],
          data_rows = [\<lparr>data_well_id = 1, depth = 20, row_values = [''HC1'' \<mapsto> Some 4, ''HC2'' \<mapsto> None]\<rparr>,
                       \<lparr>data_well_id = 2, depth = 15, row_values = [''HC1'' \<mapsto> Some 9, ''HC2'' \<mapsto> Some 1]\<rparr>,
                       \<lparr>data_well_id = 1, depth = 10, row_values = [''HC1'' \<mapsto> Some 2, ''HC2'' \<mapsto> None]\<rparr>]\<rparr>"
  define cs where "cs = [''HC1'', ''HC2'']"
  define c where "c = ''HC2''"
  have mem: "c \<in> set cs" by (simp add: c_def cs_def)
  have "\<forall>c \<in> set cs. \<exists>s. get_well_statistics db 1 cs None None c = Some s
        \<and> count_stat s = length (samples_in_window db 1 None None)
        \<and> (non_null_count s = 0 \<longrightarrow>
             min_stat s = None \<and> max_stat s = None \<and> mean_stat s = None)"
    using get_well_statistics_count_and_undefined [of cs db 1 None None] by (rule conjunct1)
  with mem obtain s where s: "get_well_statistics db 1 cs None None c = Some s"
      "count_stat s = length (samples_in_window db 1 None None)"
      "non_null_count s = 0 \<longrightarrow> min_stat s = None \<and> max_stat s = None \<and> mean_stat s = None"
    by (elim ballE exE conjE) auto
  have win: "length (samples_in_window db 1 None None) = 2"
    by (simp add: samples_in_window_def db_def)
  have "non_null_count (stats_of_curve (get_well_data db 1 cs None None) c) = 0"
    by (simp add: stats_of_curve_non_null get_well_data_def List.map_filter_def dict_get_def
        db_def cs_def c_def)
  with s(1) mem have nn: "non_null_count s = 0"
    by (simp add: get_well_statistics_lookup)
  from s nn win have "\<exists>s. get_well_statistics db 1 cs None None c = Some s
        \<and> count_stat s = 2 \<and> non_null_count s = 0
        \<and> min_stat s = None \<and> max_stat s = None \<and> mean_stat s = None"
    by simp
  with mem show ?thesis unfolding db_def cs_def c_def by (rule conjI)
qed

subsection \<open>Percentile\<close>

lemma sort_cong_mset: "mset xs = mset ys \<Longrightarrow> sort xs = sort (ys :: real list)"
  by (rule properties_for_sort) simp_all

lemma sort_Nil_iff: "sort vs = [] \<longleftrightarrow> (vs :: real list) = []"
  by (metis length_sort length_0_conv)

lemma percentile_sort: "percentile (sort vs) q = percentile vs q"
  by (simp add: percentile_def Let_def sort_Nil_iff sorted_sort_id)

lemma percentile_None_iff: "percentile vs q = Inr None \<longleftrightarrow> vs = []"
  by (auto simp: percentile_def Let_def py_index_def split: sum.splits if_splits)

text \<open>
  C6. \<open>_percentile\<close> gives the same result (the same value, or the same error) on any
  two lists that are permutations of each other, for every \<open>q\<close>; it is \<open>None\<close> on the
  empty list, and on a one-element list it is that element whatever \<open>q\<close> is.
\<close>

theorem percentile_permutation_invariant:
  "(mset xs = mset ys \<longrightarrow> percentile xs q = percentile ys q)
   \<and> percentile [] q = Inr None
   \<and> percentile [x] q = Inr (Some x)"
proof -
  have perm: "mset xs = mset ys \<longrightarrow> percentile xs q = percentile ys q"
  proof
    assume eq: "mset xs = mset ys"
    then have "sort xs = sort ys" by (rule sort_cong_mset)
    then have "percentile (sort xs) q = percentile (sort ys) q" by simp
    then show "percentile xs q = percentile ys q" by (simp only: percentile_sort)
  qed
  have empty: "percentile [] q = Inr None" by (simp add: percentile_def)
  have single: "percentile [x] q = Inr (Some x)"
    by (simp add: percentile_def py_index_def)
  from perm empty single show ?thesis by simp
qed

theorem percentile_permutation_invariant_witness:
  "mset [3, 1, 2 :: real] = mset [2, 3, 1]
   \<and> percentile [3, 1, 2] (1 / 2) = Inr (Some 2)
   \<and> percentile [2, 3, 1] (1 / 2) = Inr (Some 2)"
proof -
  have m: "mset [3, 1, 2 :: real] = mset [2, 3, 1]" by simp
  have v: "percentile [3, 1, 2] (1 / 2) = Inr (Some 2)"
    by (simp add: percentile_def py_index_def py_int_def Let_def)
  from percentile_permutation_invariant [of "[3, 1, 2]" "[2, 3, 1]" "1 / 2"] m
  have "percentile [3, 1, 2] (1 / 2) = percentile [2, 3, 1] (1 / 2)" by simp
  with m v show ?thesis by simp
qed

subsection \<open>Pearson correlation\<close>

lemma floor_log2:
  assumes "2 powi k \<le> x" "x < 2 powi (k + 1)"
  shows "\<lfloor>log 2 x\<rfloor> = k"
proof -
  have pos: "0 < x" by (rule less_le_trans [OF _ assms(1)]) simp
  have p: "2 powr real_of_int j = (2 :: real) powi j" for j
    by (simp add: powr_real_of_int')
  have "real_of_int k \<le> log 2 x" using assms(1) pos
    by (simp add: le_log_iff p)
  moreover have "log 2 x < real_of_int (k + 1)" using assms(2) pos
    by (simp only: log_less_iff p)
  ultimately show ?thesis by (simp add: floor_eq_iff)
qed

lemma last_place_eq:
  assumes "2 powi k \<le> \<bar>x\<bar>" "\<bar>x\<bar> < 2 powi (k + 1)" "- 1022 \<le> k"
  shows "last_place x = k - 52"
  using floor_log2 [OF assms(1,2)] assms(3) by (simp add: last_place_def)

lemma round_half_even_of_int: "round_half_even (of_int n) = n"
  by (simp add: round_half_even_def)

lemma pow53: "2 ^ 53 * 2 powi (k - 52) = (2 :: real) powi (k + 1)"
proof -
  have "(2 :: real) powi 53 * 2 powi (k - 52) = 2 powi (53 + (k - 52))"
    by (rule power_int_add [symmetric]) simp
  moreover have "53 + (k - 52) = k + 1" by simp
  moreover have "(2 :: real) powi 53 = 2 ^ 53" by simp
  ultimately show ?thesis by (simp only:)
qed

lemma pow53': "2 ^ 53 * 2 powi e = (2 :: real) powi (e + 53)"
proof -
  have "(2 :: real) powi 53 * 2 powi e = 2 powi (53 + e)"
    by (rule power_int_add [symmetric]) simp
  moreover have "53 + e = e + 53" by simp
  moreover have "(2 :: real) powi 53 = 2 ^ 53" by simp
  ultimately show ?thesis by (simp only:)
qed

text \<open>Rounding a normal value: between \<open>2 ^ k\<close> and \<open>2 ^ (k + 1)\<close> the doubles are the
  multiples of \<open>2 ^ (k - 52)\<close>.\<close>

lemma round_double_eq:
  assumes "2 powi k \<le> \<bar>x\<bar>" "\<bar>x\<bar> < 2 powi (k + 1)" "- 1022 \<le> k" "k < 1023"
    and m: "round_half_even (x / 2 powi (k - 52)) = m" and mb: "\<bar>m\<bar> \<le> 2 ^ 53"
  shows "round_double x = Finite (of_int m * 2 powi (k - 52))"
proof -
  have "0 < \<bar>x\<bar>" by (rule less_le_trans [OF _ assms(1)]) simp
  then have x0: "x \<noteq> 0" by simp
  have lp: "last_place x = k - 52" using assms(1-3) by (rule last_place_eq)
  have "\<bar>real_of_int m * 2 powi (k - 52)\<bar> = \<bar>real_of_int m\<bar> * 2 powi (k - 52)"
    by (simp add: abs_mult)
  also have "\<dots> \<le> 2 ^ 53 * 2 powi (k - 52)"
  proof (rule mult_right_mono)
    have "real_of_int \<bar>m\<bar> \<le> real_of_int (2 ^ 53)" using mb by (simp only: of_int_le_iff)
    then show "\<bar>real_of_int m\<bar> \<le> 2 ^ 53" by simp
    show "0 \<le> (2 :: real) powi (k - 52)" by simp
  qed
  also have "\<dots> = 2 powi (k + 1)" by (rule pow53)
  also have "\<dots> \<le> 2 powi 1023" using assms(4) by (intro power_int_increasing) simp_all
  also have "\<dots> < 2 ^ 1024" by simp
  finally have "\<not> 2 ^ 1024 \<le> \<bar>real_of_int m * 2 powi (k - 52)\<bar>" by simp
  then show ?thesis using x0 by (simp add: round_double_def lp m Let_def)
qed

text \<open>A value that is a double already is not changed by rounding.\<close>

lemma round_double_exact:
  assumes x: "x = of_int m * 2 powi e" and mb: "\<bar>m\<bar> < 2 ^ 53" and e: "- 1074 \<le> e" "e \<le> 971"
  shows "round_double x = Finite x"
proof (cases "x = 0")
  case True
  then show ?thesis by (simp add: round_double_def)
next
  case False
  have ax: "\<bar>x\<bar> = real_of_int \<bar>m\<bar> * 2 powi e" by (simp add: x abs_mult)
  have "real_of_int \<bar>m\<bar> < real_of_int (2 ^ 53)" using mb by (simp only: of_int_less_iff)
  then have "real_of_int \<bar>m\<bar> < 2 ^ 53" by simp
  then have "\<bar>x\<bar> < 2 ^ 53 * 2 powi e" unfolding ax by (intro mult_strict_right_mono) simp_all
  also have "\<dots> = 2 powi (e + 53)" by (rule pow53')
  finally have up: "\<bar>x\<bar> < 2 powi (e + 53)" .
  have xpos: "0 < \<bar>x\<bar>" using False by simp
  have p: "2 powr real_of_int j = (2 :: real) powi j" for j
    by (simp add: powr_real_of_int')
  have "log 2 \<bar>x\<bar> < real_of_int (e + 53)" using up xpos by (simp only: log_less_iff p)
  then have "\<lfloor>log 2 \<bar>x\<bar>\<rfloor> < e + 53" by (simp add: floor_less_iff)
  then have le: "last_place x \<le> e" using e(1) by (simp add: last_place_def)
  define f where "f = last_place x"
  have fe: "f \<le> e" using le by (simp add: f_def)
  have "x / 2 powi f = of_int m * 2 powi (e - f)"
    by (simp add: x power_int_diff)
  also have "\<dots> = of_int m * 2 ^ nat (e - f)" using fe by (simp add: power_int_def)
  also have "\<dots> = of_int (m * 2 ^ nat (e - f))" by simp
  finally have q: "x / 2 powi f = of_int (m * 2 ^ nat (e - f))" .
  have r: "of_int (round_half_even (x / 2 powi f)) * 2 powi f = x"
    unfolding q round_half_even_of_int using q by (simp add: field_simps)
  have "\<bar>x\<bar> < 2 powi (e + 53)" by (rule up)
  also have "\<dots> \<le> 2 powi 1024" using e(2) by (intro power_int_increasing) simp_all
  also have "\<dots> = 2 ^ 1024" by simp
  finally have "\<not> 2 ^ 1024 \<le> \<bar>x\<bar>" by simp
  then show ?thesis using False r by (simp add: round_double_def Let_def f_def [symmetric])
qed

text \<open>The literals: \<open>0.1\<close> and \<open>0.7\<close> are read as the nearest doubles.\<close>

lemma round_tenth: "round_double (1 / 10) = Finite tenth"
  using round_double_eq [of "- 4" "1 / 10" 7205759403792794]
  by (simp add: round_half_even_def tenth_def)

lemma round_seven_tenths: "round_double (7 / 10) = Finite seven_tenths"
  using round_double_eq [of "- 1" "7 / 10" 6305039478318694]
  by (simp add: round_half_even_def seven_tenths_def)

text \<open>The sum of three times \<open>0.1\<close> lies half-way between two doubles and rounds to the
  upper, even one; so does the sum of three times \<open>0.7\<close>, to the lower one.\<close>

lemma sum_tenths:
  "float_sum [Finite tenth, Finite tenth, Finite tenth] = Finite (5404319552844596 / 2 ^ 54)"
proof -
  have s1: "float_add (Finite 0) (Finite tenth) = Finite tenth"
    using round_double_exact [of tenth 3602879701896397 "- 55"] by (simp add: tenth_def)
  have s2: "float_add (Finite tenth) (Finite tenth) = Finite (2 * tenth)"
    using round_double_exact [of "tenth + tenth" 3602879701896397 "- 54"] by (simp add: tenth_def)
  have s3: "float_add (Finite (2 * tenth)) (Finite tenth) = Finite (5404319552844596 / 2 ^ 54)"
    using round_double_eq [of "- 2" "2 * tenth + tenth" 5404319552844596]
    by (simp add: round_half_even_def tenth_def)
  show ?thesis by (simp only: float_sum_def foldl.simps s1 s2 s3)
qed

lemma sum_seven_tenths:
  "float_sum [Finite seven_tenths, Finite seven_tenths, Finite seven_tenths]
     = Finite (4728779608739020 / 2 ^ 51)"
proof -
  have s1: "float_add (Finite 0) (Finite seven_tenths) = Finite seven_tenths"
    using round_double_exact [of seven_tenths 6305039478318694 "- 53"] by (simp add: seven_tenths_def)
  have s2: "float_add (Finite seven_tenths) (Finite seven_tenths) = Finite (2 * seven_tenths)"
    using round_double_exact [of "seven_tenths + seven_tenths" 6305039478318694 "- 52"]
    by (simp add: seven_tenths_def)
  have s3: "float_add (Finite (2 * seven_tenths)) (Finite seven_tenths)
      = Finite (4728779608739020 / 2 ^ 51)"
    using round_double_eq [of 1 "2 * seven_tenths + seven_tenths" 4728779608739020]
    by (simp add: round_half_even_def seven_tenths_def)
  show ?thesis by (simp only: float_sum_def foldl.simps s1 s2 s3)
qed

text \<open>Three equal powers of two (or their negatives) are summed exactly.\<close>

lemma sum_thrice:
  assumes "\<bar>m\<bar> = 1" "- 1074 \<le> e" "e \<le> 900"
  shows "float_sum [Finite (of_int m * 2 powi e), Finite (of_int m * 2 powi e), Finite (of_int m * 2 powi e)]
     = Finite (3 * (of_int m * 2 powi e))"
proof -
  define q :: real where "q = of_int m * 2 powi e"
  have s1: "float_add (Finite 0) (Finite q) = Finite q"
    using round_double_exact [of q m e] assms by (simp add: q_def)
  have "q + q = of_int m * 2 powi (e + 1)" by (simp add: q_def power_int_add)
  then have s2: "float_add (Finite q) (Finite q) = Finite (q + q)"
    using round_double_exact [of "q + q" m "e + 1"] assms by simp
  have "q + q + q = of_int (3 * m) * 2 powi e" by (simp add: q_def)
  then have s3: "float_add (Finite (q + q)) (Finite q) = Finite (3 * q)"
    using round_double_exact [of "q + q + q" "3 * m" e] assms by simp
  show ?thesis unfolding q_def [symmetric] by (simp only: float_sum_def foldl.simps s1 s2 s3)
qed

text \<open>The compensated summation gives the same three sums: the compensation is zero
  when the additions are exact, and half a unit in the last place at the two ties,
  where adding it leads back to the same tie.\<close>

lemma compensated_thrice:
  assumes "\<bar>m\<bar> = 1" "- 1074 \<le> e" "e \<le> 900"
  shows "float_sum_compensated
           [Finite (of_int m * 2 powi e), Finite (of_int m * 2 powi e), Finite (of_int m * 2 powi e)]
     = Finite (3 * (of_int m * 2 powi e))"
proof -
  define q :: real where "q = of_int m * 2 powi e"
  have q2: "q + q = of_int m * 2 powi (e + 1)" by (simp add: q_def power_int_add)
  have q3: "q + q + q = of_int (3 * m) * 2 powi e" by (simp add: q_def)
  have s1: "float_add (Finite 0) (Finite q) = Finite q"
    using round_double_exact [of q m e] assms by (simp add: q_def)
  have s2: "float_add (Finite q) (Finite q) = Finite (q + q)"
    using round_double_exact [of "q + q" m "e + 1"] assms q2 by simp
  have s3: "float_add (Finite (q + q)) (Finite q) = Finite (3 * q)"
    using round_double_exact [of "q + q + q" "3 * m" e] assms q3 by simp
  have g1: "float_ge (float_abs (Finite q)) (float_abs (Finite q))" by simp
  have g2: "float_ge (float_abs (Finite (q + q))) (float_abs (Finite q))" by simp
  have c1: "float_add (Finite 0) (float_add (float_sub (Finite q) (Finite (q + q))) (Finite q)) = Finite 0"
    using round_double_exact [of "- q" "- m" e] assms
    by (simp add: float_sub_def q_def round_double_def)
  have c2: "float_add (Finite 0) (float_add (float_sub (Finite (q + q)) (Finite (3 * q))) (Finite q))
      = Finite 0"
    using round_double_exact [of "- q" "- m" e] assms
    by (simp add: float_sub_def q_def round_double_def)
  show ?thesis
    unfolding q_def [symmetric]
    by (simp only: float_sum_compensated.simps neumaier.simps Let_def s1 s2 s3 g1 g2 c1 c2
        if_True simp_thms if_False)
qed

lemma compensated_tenths:
  "float_sum_compensated [Finite tenth, Finite tenth, Finite tenth]
     = Finite (5404319552844596 / 2 ^ 54)"
proof -
  define t3 :: real where "t3 = 5404319552844596 / 2 ^ 54"
  define c :: real where "c = - (1 / 2 ^ 55)"
  have s1: "float_add (Finite 0) (Finite tenth) = Finite tenth"
    using round_double_exact [of tenth 3602879701896397 "- 55"] by (simp add: tenth_def)
  have s2: "float_add (Finite tenth) (Finite tenth) = Finite (2 * tenth)"
    using round_double_exact [of "tenth + tenth" 3602879701896397 "- 54"] by (simp add: tenth_def)
  have s3: "float_add (Finite (2 * tenth)) (Finite tenth) = Finite t3"
    using round_double_eq [of "- 2" "2 * tenth + tenth" 5404319552844596]
    by (simp add: round_half_even_def tenth_def t3_def)
  have g1: "float_ge (float_abs (Finite tenth)) (float_abs (Finite tenth))" by simp
  have g2: "float_ge (float_abs (Finite (2 * tenth))) (float_abs (Finite tenth))"
    by (simp add: tenth_def)
  have c1: "float_add (Finite 0)
      (float_add (float_sub (Finite tenth) (Finite (2 * tenth))) (Finite tenth)) = Finite 0"
    using round_double_exact [of "- tenth" "- 3602879701896397" "- 55"]
    by (simp add: float_sub_def tenth_def round_double_def)
  have d: "float_sub (Finite (2 * tenth)) (Finite t3) = Finite (- (1801439850948199 / 2 ^ 54))"
    using round_double_exact [of "2 * tenth - t3" "- 1801439850948199" "- 54"]
    by (simp add: float_sub_def tenth_def t3_def)
  have d': "float_add (Finite (- (1801439850948199 / 2 ^ 54))) (Finite tenth) = Finite c"
    using round_double_exact [of c "- 1" "- 55"] by (simp add: tenth_def c_def)
  have d'': "float_add (Finite 0) (Finite c) = Finite c"
    using round_double_exact [of c "- 1" "- 55"] by (simp add: c_def)
  have c2: "float_add (Finite 0)
      (float_add (float_sub (Finite (2 * tenth)) (Finite t3)) (Finite tenth)) = Finite c"
    by (simp only: d d' d'')
  have fin: "Finite c \<noteq> Finite 0 \<and> is_finite (Finite c)" by (simp add: c_def)
  have last: "float_add (Finite t3) (Finite c) = Finite t3"
    using round_double_eq [of "- 2" "t3 + c" 5404319552844596]
    by (simp add: round_half_even_def t3_def c_def)
  show ?thesis
    unfolding t3_def [symmetric]
    by (simp only: float_sum_compensated.simps neumaier.simps Let_def s1 s2 s3 g1 g2 c1 c2
        fin last if_True simp_thms)
qed

lemma compensated_seven_tenths:
  "float_sum_compensated [Finite seven_tenths, Finite seven_tenths, Finite seven_tenths]
     = Finite (4728779608739020 / 2 ^ 51)"
proof -
  define t3 :: real where "t3 = 4728779608739020 / 2 ^ 51"
  define c :: real where "c = 1 / 2 ^ 52"
  have s1: "float_add (Finite 0) (Finite seven_tenths) = Finite seven_tenths"
    using round_double_exact [of seven_tenths 6305039478318694 "- 53"]
    by (simp add: seven_tenths_def)
  have s2: "float_add (Finite seven_tenths) (Finite seven_tenths) = Finite (2 * seven_tenths)"
    using round_double_exact [of "seven_tenths + seven_tenths" 6305039478318694 "- 52"]
    by (simp add: seven_tenths_def)
  have s3: "float_add (Finite (2 * seven_tenths)) (Finite seven_tenths) = Finite t3"
    using round_double_eq [of 1 "2 * seven_tenths + seven_tenths" 4728779608739020]
    by (simp add: round_half_even_def seven_tenths_def t3_def)
  have g1: "float_ge (float_abs (Finite seven_tenths)) (float_abs (Finite seven_tenths))" by simp
  have g2: "float_ge (float_abs (Finite (2 * seven_tenths))) (float_abs (Finite seven_tenths))"
    by (simp add: seven_tenths_def)
  have c1: "float_add (Finite 0)
      (float_add (float_sub (Finite seven_tenths) (Finite (2 * seven_tenths))) (Finite seven_tenths))
      = Finite 0"
    using round_double_exact [of "- seven_tenths" "- 6305039478318694" "- 53"]
    by (simp add: float_sub_def seven_tenths_def round_double_def)
  have d: "float_sub (Finite (2 * seven_tenths)) (Finite t3) = Finite (- (6305039478318692 / 2 ^ 53))"
    using round_double_exact [of "2 * seven_tenths - t3" "- 6305039478318692" "- 53"]
    by (simp add: float_sub_def seven_tenths_def t3_def)
  have d': "float_add (Finite (- (6305039478318692 / 2 ^ 53))) (Finite seven_tenths) = Finite c"
    using round_double_exact [of c 1 "- 52"] by (simp add: seven_tenths_def c_def)
  have d'': "float_add (Finite 0) (Finite c) = Finite c"
    using round_double_exact [of c 1 "- 52"] by (simp add: c_def)
  have c2: "float_add (Finite 0)
      (float_add (float_sub (Finite (2 * seven_tenths)) (Finite t3)) (Finite seven_tenths)) = Finite c"
    by (simp only: d d' d'')
  have fin: "Finite c \<noteq> Finite 0 \<and> is_finite (Finite c)" by (simp add: c_def)
  have last: "float_add (Finite t3) (Finite c) = Finite t3"
    using round_double_eq [of 1 "t3 + c" 4728779608739020]
    by (simp add: round_half_even_def t3_def c_def)
  show ?thesis
    unfolding t3_def [symmetric]
    by (simp only: float_sum_compensated.simps neumaier.simps Let_def s1 s2 s3 g1 g2 c1 c2
        fin last if_True simp_thms)
qed

text \<open>The steps after the sums: each computed mean is one unit in the last place away
  from the elements, and everything from there on is exact.\<close>

lemma round_three: "round_double (real (length [x, y, z])) = Finite 3"
  using round_double_exact [of 3 3 0] by simp

lemma mean_tenths:
  assumes "S [Finite tenth, Finite tenth, Finite tenth] = Finite (5404319552844596 / 2 ^ 54)"
  shows "float_mean S [Finite tenth, Finite tenth, Finite tenth]
     = Inr (Some (Finite (7205759403792795 / 2 ^ 56)))"
proof -
  have d: "float_truediv (Finite (5404319552844596 / 2 ^ 54)) (Finite 3)
      = Inr (Finite (7205759403792795 / 2 ^ 56))"
    using round_double_eq [of "- 4" "5404319552844596 / 2 ^ 54 / 3" 7205759403792795]
    by (simp add: round_half_even_def)
  show ?thesis
    unfolding float_mean_def assms round_three d by simp
qed

lemma mean_seven_tenths:
  assumes "S [Finite seven_tenths, Finite seven_tenths, Finite seven_tenths]
     = Finite (4728779608739020 / 2 ^ 51)"
  shows "float_mean S [Finite seven_tenths, Finite seven_tenths, Finite seven_tenths]
     = Inr (Some (Finite (6305039478318693 / 2 ^ 53)))"
proof -
  have d: "float_truediv (Finite (4728779608739020 / 2 ^ 51)) (Finite 3)
      = Inr (Finite (6305039478318693 / 2 ^ 53))"
    using round_double_eq [of "- 1" "4728779608739020 / 2 ^ 51 / 3" 6305039478318693]
    by (simp add: round_half_even_def)
  show ?thesis
    unfolding float_mean_def assms round_three d by simp
qed

lemma dev_tenth:
  "float_sub (Finite tenth) (Finite (7205759403792795 / 2 ^ 56)) = Finite (- (1 / 2 ^ 56))"
  using round_double_exact [of "tenth - 7205759403792795 / 2 ^ 56" "- 1" "- 56"]
  by (simp add: float_sub_def tenth_def)

lemma dev_seven_tenths:
  "float_sub (Finite seven_tenths) (Finite (6305039478318693 / 2 ^ 53)) = Finite (1 / 2 ^ 53)"
  using round_double_exact [of "seven_tenths - 6305039478318693 / 2 ^ 53" 1 "- 53"]
  by (simp add: float_sub_def seven_tenths_def)

lemma square_dev_tenth: "float_square (Finite (- (1 / 2 ^ 56))) = Inr (Finite (1 / 2 ^ 112))"
  using round_double_exact [of "1 / 2 ^ 112" 1 "- 112"] by simp

lemma square_dev_seven_tenths: "float_square (Finite (1 / 2 ^ 53)) = Inr (Finite (1 / 2 ^ 106))"
  using round_double_exact [of "1 / 2 ^ 106" 1 "- 106"] by simp

lemma product_devs:
  "float_mul (Finite (- (1 / 2 ^ 56))) (Finite (1 / 2 ^ 53)) = Finite (- (1 / 2 ^ 109))"
  using round_double_exact [of "- (1 / 2 ^ 109)" "- 1" "- 109"] by simp

lemma denominator_product:
  "float_mul (Finite (3 / 2 ^ 112)) (Finite (3 / 2 ^ 106)) = Finite (9 / 2 ^ 218)"
  using round_double_exact [of "9 / 2 ^ 218" 9 "- 218"] by simp

lemma denominator_root: "math_sqrt (Finite (9 / 2 ^ 218)) = Inr (Finite (3 / 2 ^ 109))"
proof -
  have r: "sqrt (9 / 2 ^ 218) = 3 / 2 ^ 109"
    by (rule real_sqrt_unique) (simp_all add: power2_eq_square)
  have e: "round_double (3 / 2 ^ 109) = Finite (3 / 2 ^ 109)"
    using round_double_exact [of "3 / 2 ^ 109" 3 "- 109"] by simp
  show ?thesis unfolding math_sqrt.simps r e by simp
qed

lemma quotient_devs:
  "float_truediv (Finite (- (3 / 2 ^ 109))) (Finite (3 / 2 ^ 109)) = Inr (Finite (- 1))"
  using round_double_exact [of "- 1" "- 1" 0] by simp

text \<open>The run of both functions on the two constant sequences, for any summation that
  gives the five sums above.\<close>

lemma pearson_run:
  assumes "S [Finite tenth, Finite tenth, Finite tenth] = Finite (5404319552844596 / 2 ^ 54)"
    and "S [Finite seven_tenths, Finite seven_tenths, Finite seven_tenths]
           = Finite (4728779608739020 / 2 ^ 51)"
    and "S [Finite (1 / 2 ^ 112), Finite (1 / 2 ^ 112), Finite (1 / 2 ^ 112)] = Finite (3 / 2 ^ 112)"
    and "S [Finite (1 / 2 ^ 106), Finite (1 / 2 ^ 106), Finite (1 / 2 ^ 106)] = Finite (3 / 2 ^ 106)"
    and "S [Finite (- (1 / 2 ^ 109)), Finite (- (1 / 2 ^ 109)), Finite (- (1 / 2 ^ 109))]
           = Finite (- (3 / 2 ^ 109))"
  shows "pearson S [Finite tenth, Finite tenth, Finite tenth]
           [Finite seven_tenths, Finite seven_tenths, Finite seven_tenths] = Inr (Some (Finite (- 1)))"
    and "pearson_correlation S [Finite tenth, Finite tenth, Finite tenth]
           [Finite seven_tenths, Finite seven_tenths, Finite seven_tenths] = Inr (Some (Finite (- 1)))"
proof -
  define x where "x = Finite tenth"
  define y where "y = Finite seven_tenths"
  define ma where "ma = Finite (7205759403792795 / 2 ^ 56)"
  define mb where "mb = Finite (6305039478318693 / 2 ^ 53)"
  define da where "da = Finite (- (1 / 2 ^ 56))"
  define db where "db = Finite (1 / 2 ^ 53)"
  define qa where "qa = Finite (1 / 2 ^ 112)"
  define qb where "qb = Finite (1 / 2 ^ 106)"
  define p where "p = Finite (- (1 / 2 ^ 109))"
  define sa where "sa = Finite (3 / 2 ^ 112)"
  define sb where "sb = Finite (3 / 2 ^ 106)"
  define sp where "sp = Finite (- (3 / 2 ^ 109))"
  define dd where "dd = Finite (9 / 2 ^ 218)"
  define rt where "rt = Finite (3 / 2 ^ 109)"
  define r where "r = Finite (- 1)"
  note defs = x_def y_def ma_def mb_def da_def db_def qa_def qb_def p_def sa_def sb_def sp_def
    dd_def rt_def r_def
  have steps:
    "float_mean S [x, x, x] = Inr (Some ma)" "float_mean S [y, y, y] = Inr (Some mb)"
    "float_sub x ma = da" "float_sub y mb = db"
    "float_square da = Inr qa" "float_square db = Inr qb" "float_mul da db = p"
    "S [qa, qa, qa] = sa" "S [qb, qb, qb] = sb" "S [p, p, p] = sp"
    "float_mul sa sb = dd" "math_sqrt dd = Inr rt" "float_truediv sp rt = Inr r"
    unfolding defs
    by (fact mean_tenths [of S, OF assms(1)] mean_seven_tenths [of S, OF assms(2)] dev_tenth dev_seven_tenths
        square_dev_tenth square_dev_seven_tenths product_devs assms(3) assms(4) assms(5)
        denominator_product denominator_root quotient_devs)+
  have nz: "rt \<noteq> Finite 0" by (simp add: rt_def)
  have "pearson S [x, x, x] [y, y, y] = Inr (Some r)"
    unfolding pearson_def by (simp add: Let_def bind_err_def steps nz)
  then show "pearson S [Finite tenth, Finite tenth, Finite tenth]
           [Finite seven_tenths, Finite seven_tenths, Finite seven_tenths] = Inr (Some (Finite (- 1)))"
    by (simp only: x_def y_def r_def)
  have "pearson_correlation S [x, x, x] [y, y, y] = Inr (Some r)"
    unfolding pearson_correlation_def by (simp add: Let_def bind_err_def steps nz)
  then show "pearson_correlation S [Finite tenth, Finite tenth, Finite tenth]
           [Finite seven_tenths, Finite seven_tenths, Finite seven_tenths] = Inr (Some (Finite (- 1)))"
    by (simp only: x_def y_def r_def)
qed

lemma squares_and_products_plain:
  "float_sum [Finite (1 / 2 ^ 112), Finite (1 / 2 ^ 112), Finite (1 / 2 ^ 112)] = Finite (3 / 2 ^ 112)"
  "float_sum [Finite (1 / 2 ^ 106), Finite (1 / 2 ^ 106), Finite (1 / 2 ^ 106)] = Finite (3 / 2 ^ 106)"
  "float_sum [Finite (- (1 / 2 ^ 109)), Finite (- (1 / 2 ^ 109)), Finite (- (1 / 2 ^ 109))]
     = Finite (- (3 / 2 ^ 109))"
  using sum_thrice [of 1 "- 112"] sum_thrice [of 1 "- 106"] sum_thrice [of "- 1" "- 109"]
  by simp_all

lemma squares_and_products_compensated:
  "float_sum_compensated [Finite (1 / 2 ^ 112), Finite (1 / 2 ^ 112), Finite (1 / 2 ^ 112)]
     = Finite (3 / 2 ^ 112)"
  "float_sum_compensated [Finite (1 / 2 ^ 106), Finite (1 / 2 ^ 106), Finite (1 / 2 ^ 106)]
     = Finite (3 / 2 ^ 106)"
  "float_sum_compensated [Finite (- (1 / 2 ^ 109)), Finite (- (1 / 2 ^ 109)), Finite (- (1 / 2 ^ 109))]
     = Finite (- (3 / 2 ^ 109))"
  using compensated_thrice [of 1 "- 112"] compensated_thrice [of 1 "- 106"]
    compensated_thrice [of "- 1" "- 109"]
  by simp_all

text \<open>What the claim says of symmetry and of short inputs holds in double arithmetic as
  well, whatever the summation: multiplication of doubles commutes, the two means can
  only raise the same error, and so can the two sums of squares.\<close>

lemma float_mul_commute: "float_mul x y = float_mul y x"
  by (cases x; cases y) (auto simp: mult.commute)

lemma float_mean_error: "float_mean S vs = Inl e \<Longrightarrow> e = ZeroDivisionError"
  by (cases "S vs"; cases "round_double (real (length vs))")
     (auto simp: float_mean_def split: if_splits sum.splits)

lemma float_square_error: "float_square x = Inl e \<Longrightarrow> e = OverflowError"
  by (cases x) (auto split: double.splits)

lemma collect_err_error:
  "collect_err (map (\<lambda>x. float_square (f x)) xs) = Inl e \<Longrightarrow> e = OverflowError"
proof (induction xs)
  case Nil
  then show ?case by simp
next
  case (Cons x xs)
  then show ?case
    by (cases "float_square (f x)") (auto dest: float_square_error split: sum.splits)
qed

lemma products_swap:
  "map (\<lambda>(x, y). float_mul (f x) (g y)) (zip xs ys)
     = map (\<lambda>(y, x). float_mul (g y) (f x)) (zip ys xs)"
proof (induction xs arbitrary: ys)
  case Nil
  then show ?case by simp
next
  case (Cons x xs)
  then show ?case by (cases ys) (simp_all add: float_mul_commute)
qed

lemma numerator_swap:
  "map (\<lambda>(x, y). float_mul (float_sub x ma) (float_sub y mb)) (zip xs ys)
     = map (\<lambda>(y, x). float_mul (float_sub y mb) (float_sub x ma)) (zip ys xs)"
  by (rule products_swap)

lemma bind_shape:
  assumes ea: "\<And>e. A = Inl e \<Longrightarrow> e = ZeroDivisionError"
    and eb: "\<And>e. B = Inl e \<Longrightarrow> e = ZeroDivisionError"
    and qa: "\<And>e x. QA x = Inl e \<Longrightarrow> e = OverflowError"
    and qb: "\<And>e y. QB y = Inl e \<Longrightarrow> e = OverflowError"
    and K: "\<And>x y sa sb. K' y x sb sa = K x y sa sb"
  shows "bind_err A (\<lambda>ma. bind_err B (\<lambda>mb.
           case ma of None \<Rightarrow> Inr None
           | Some x \<Rightarrow> (case mb of None \<Rightarrow> Inr None
               | Some y \<Rightarrow> bind_err (QA x) (\<lambda>sa. bind_err (QB y) (\<lambda>sb. K x y sa sb)))))
       = bind_err B (\<lambda>mb. bind_err A (\<lambda>ma.
           case mb of None \<Rightarrow> Inr None
           | Some y \<Rightarrow> (case ma of None \<Rightarrow> Inr None
               | Some x \<Rightarrow> bind_err (QB y) (\<lambda>sb. bind_err (QA x) (\<lambda>sa. K' y x sb sa)))))"
proof (cases A)
  case (Inl e)
  then show ?thesis using ea [OF Inl] eb by (cases B) (auto simp: bind_err_def)
next
  case a: (Inr ma)
  show ?thesis
  proof (cases B)
    case (Inl e)
    then show ?thesis using a eb [OF Inl] by (auto simp: bind_err_def)
  next
    case b: (Inr mb)
    show ?thesis
    proof (cases ma)
      case None
      then show ?thesis using a b by (auto simp: bind_err_def split: option.splits)
    next
      case x: (Some x)
      show ?thesis
      proof (cases mb)
        case None
        then show ?thesis using a b x by (auto simp: bind_err_def)
      next
        case y: (Some y)
        show ?thesis
        proof (cases "QA x")
          case (Inl e)
          then show ?thesis using a b x y qa [OF Inl] qb [of y]
            by (cases "QB y") (auto simp: bind_err_def)
        next
          case sa: (Inr sa)
          show ?thesis
          proof (cases "QB y")
            case (Inl e)
            then show ?thesis using a b x y sa qb [OF Inl] by (auto simp: bind_err_def)
          next
            case (Inr sb)
            then show ?thesis using a b x y sa K by (auto simp: bind_err_def)
          qed
        qed
      qed
    qed
  qed
qed

lemma pearson_symmetric: "pearson S a b = pearson S b a"
proof -
  define n where "n = min (length a) (length b)"
  have n': "min (length b) (length a) = n" by (simp add: n_def min.commute)
  show ?thesis
    unfolding pearson_def n' n_def [symmetric] Let_def
    apply (cases "n < 3")
     apply simp
    apply (simp only: if_False)
    apply (rule bind_shape)
        apply (erule float_mean_error)
       apply (erule float_mean_error)
      apply (erule collect_err_error)
     apply (erule collect_err_error)
    apply (simp only: numerator_swap [of _ _ "take n b" "take n a"] float_mul_commute [of "S sb" "S sa" for sa sb])
    done
qed

lemma pearson_correlation_symmetric: "pearson_correlation S a b = pearson_correlation S b a"
proof -
  define n where "n = min (length a) (length b)"
  have n': "min (length b) (length a) = n" by (simp add: n_def min.commute)
  show ?thesis
    unfolding pearson_correlation_def n' n_def [symmetric] Let_def
    apply (cases "n < 3")
     apply simp
    apply (simp only: if_False)
    apply (rule bind_shape)
        apply (erule float_mean_error)
       apply (erule float_mean_error)
      apply (erule collect_err_error)
     apply (erule collect_err_error)
    apply (simp only: numerator_swap [of _ _ "take n b" "take n a"] float_mul_commute [of "S sb" "S sa" for sa sb])
    done
qed

lemma pearson_few_points:
  "min (length a) (length b) < 3 \<Longrightarrow>
     pearson S a b = Inr None \<and> pearson_correlation S a b = Inr None"
  by (simp add: pearson_def pearson_correlation_def)

text \<open>
  C7. The claim says that the correlation is \<open>None\<close> whenever either sequence has zero
  variance, in particular for constant sequences. Both copies test this by comparing
  the computed denominator with zero. For the constant sequences 0.1, 0.1, 0.1 and
  0.7, 0.7, 0.7 the computed means are not 0.1 and 0.7: every element differs from its
  mean by one unit in the last place, the denominator is \<open>3 / 2 ^ 109\<close>, and both copies
  return the correlation -1, under the plain and under the compensated summation.
\<close>

theorem pearson_of_constant_sequences:
  "pearson float_sum
     [round_double (1 / 10), round_double (1 / 10), round_double (1 / 10)]
     [round_double (7 / 10), round_double (7 / 10), round_double (7 / 10)]
     = Inr (Some (Finite (- 1)))
   \<and> pearson float_sum_compensated
     [round_double (1 / 10), round_double (1 / 10), round_double (1 / 10)]
     [round_double (7 / 10), round_double (7 / 10), round_double (7 / 10)]
     = Inr (Some (Finite (- 1)))
   \<and> pearson_correlation float_sum
     [round_double (1 / 10), round_double (1 / 10), round_double (1 / 10)]
     [round_double (7 / 10), round_double (7 / 10), round_double (7 / 10)]
     = Inr (Some (Finite (- 1)))
   \<and> pearson_correlation float_sum_compensated
     [round_double (1 / 10), round_double (1 / 10), round_double (1 / 10)]
     [round_double (7 / 10), round_double (7 / 10), round_double (7 / 10)]
     = Inr (Some (Finite (- 1)))"
  unfolding round_tenth round_seven_tenths
  by (intro conjI
      pearson_run [of float_sum, OF sum_tenths sum_seven_tenths squares_and_products_plain]
      pearson_run [of float_sum_compensated,
        OF compensated_tenths compensated_seven_tenths squares_and_products_compensated])

subsection \<open>Trend classification\<close>

lemma trend_label_with_short: "length vs < 12 \<Longrightarrow> trend_label_with s vs = Inr s"
  unfolding trend_label_with_def by (simp only: if_True)

lemma div5_le: "2 * ((n::nat) div 5) \<le> n"
  by arith

lemma trend_window:
  assumes "12 \<le> length vs"
  shows "0 < max 3 (length vs div 5)" and "2 * max 3 (length vs div 5) \<le> length vs"
proof -
  show "0 < max 3 (length vs div 5)" by simp
  show "2 * max 3 (length vs div 5) \<le> length vs"
  proof (cases "3 \<le> length vs div 5")
    case True
    then have "max 3 (length vs div 5) = length vs div 5" by simp
    then show ?thesis using div5_le [of "length vs"] by simp
  next
    case False
    then have "max 3 (length vs div 5) = 3" by simp
    then show ?thesis using assms by simp
  qed
qed

text \<open>From 12 points on the label is decided by the relative change alone: the two
  windows are not empty and the scale is positive, so nothing raises.\<close>

lemma trend_label_with_long:
  assumes "12 \<le> length vs"
  shows "trend_label_with s vs =
     Inr (if relative_change vs \<ge> 8 / 100 then ''increasing with depth''
          else if relative_change vs \<le> - (8 / 100) then ''decreasing with depth''
          else ''mostly stable'')"
proof -
  define w where "w = max 3 (length vs div 5)"
  define h where "h = sum_list (take w vs) / real w"
  define t where "t = sum_list (drop (length vs - w) vs) / real w"
  have w: "0 < w" "2 * w \<le> length vs"
    using trend_window [OF assms] by (simp_all add: w_def)
  then have lt: "length (take w vs) = w" and ld: "length (drop (length vs - w) vs) = w"
    by simp_all
  have "take w vs \<noteq> []" using w by auto
  then have head: "mean (take w vs) = Some h"
    using lt by (simp add: mean_def h_def)
  have "drop (length vs - w) vs \<noteq> []" using w by simp
  then have tail: "mean (drop (length vs - w) vs) = Some t"
    using ld by (simp add: mean_def t_def)
  have rc: "relative_change vs = (t - h) / max (max \<bar>h\<bar> \<bar>t\<bar>) (1 / 10 ^ 9)"
    unfolding relative_change_def w_def [symmetric] Let_def h_def t_def ..
  have "max (max \<bar>h\<bar> \<bar>t\<bar>) (1 / 10 ^ 9) \<noteq> 0"
    by (simp add: max_def)
  then have pd: "py_div (t - h) (py_max (py_max \<bar>h\<bar> \<bar>t\<bar>) (1 / 10 ^ 9)) = Inr (relative_change vs)"
    by (simp only: py_div_def py_max_eq_max rc if_False)
  have ns: "(length vs < 12) = False" using assms by simp
  have "trend_label_with s vs =
      (if relative_change vs \<ge> 8 / 100 then Inr ''increasing with depth''
       else if relative_change vs \<le> - (8 / 100) then Inr ''decreasing with depth''
       else Inr ''mostly stable'')"
    unfolding trend_label_with_def w_def [symmetric] Let_def
    by (simp only: ns if_False head tail option.case pd sum.case)
  then show ?thesis by (simp only: if_distrib [of Inr])
qed

lemma relative_change_constant:
  assumes "12 \<le> length vs" and "\<forall>x \<in> set vs. x = c"
  shows "relative_change vs = 0"
proof -
  define w where "w = max 3 (length vs div 5)"
  have w: "0 < w" "2 * w \<le> length vs"
    using trend_window [OF assms(1)] by (simp_all add: w_def)
  from assms(2) have vs: "vs = replicate (length vs) c"
    by (simp add: replicate_length_same)
  have "take w vs = replicate w c"
    using w by (subst vs) (simp add: min_def)
  moreover have "drop (length vs - w) vs = replicate w c"
    using w by (subst vs) simp
  ultimately show ?thesis
    unfolding relative_change_def w_def [symmetric] Let_def by simp
qed

lemma sum_list_take_less_drop:
  fixes vs :: "real list"
  assumes "sorted_wrt (<) vs" and "0 < w" and "2 * w \<le> length vs"
  shows "sum_list (take w vs) < sum_list (drop (length vs - w) vs)"
proof -
  have a: "sum_list (take w vs) = (\<Sum>i = 0..<w. vs ! i)"
    using assms(3) by (simp add: sum_list_sum_nth)
  have b: "sum_list (drop (length vs - w) vs) = (\<Sum>i = 0..<w. vs ! (length vs - w + i))"
    using assms(3) by (simp add: sum_list_sum_nth)
  have "(\<Sum>i = 0..<w. vs ! i) < (\<Sum>i = 0..<w. vs ! (length vs - w + i))"
  proof (rule sum_strict_mono)
    show "finite {0..<w}" by simp
    show "{0..<w} \<noteq> {}" using assms(2) by simp
    fix i assume "i \<in> {0..<w}"
    then have "i < length vs - w + i" and "length vs - w + i < length vs"
      using assms(2,3) by auto
    with assms(1) show "vs ! i < vs ! (length vs - w + i)"
      by (simp add: sorted_wrt_nth_less)
  qed
  with a b show ?thesis by simp
qed

lemma relative_change_increasing:
  assumes "12 \<le> length vs" and "sorted_wrt (<) vs"
  shows "0 < relative_change vs"
proof -
  define w where "w = max 3 (length vs div 5)"
  have w: "0 < w" "2 * w \<le> length vs"
    using trend_window [OF assms(1)] by (simp_all add: w_def)
  have "sum_list (take w vs) / real w < sum_list (drop (length vs - w) vs) / real w"
    using sum_list_take_less_drop [OF assms(2) w] w(1) by (simp add: divide_strict_right_mono)
  moreover have "0 < max (max \<bar>h\<bar> \<bar>t\<bar>) (1 / 10 ^ 9)" for h t :: real
    by (simp add: max_def)
  ultimately show ?thesis
    unfolding relative_change_def w_def [symmetric] Let_def by simp
qed

text \<open>
  C3 (amended). Trend classification returns its insufficient-points label for every
  sequence of fewer than 12 elements (\<open>insufficient points\<close> in services/ai_service.py,
  \<open>insufficient points for trend\<close> in routers/chat.py), and \<open>mostly stable\<close> for every
  constant sequence of at least 12 elements. For a strictly increasing 20-point sequence
  it returns \<open>increasing with depth\<close> exactly when the relative change
  (tail mean - head mean) / max(|head mean|, |tail mean|, 1e-9) of the first and last 4
  points is at least 0.08, and \<open>mostly stable\<close> otherwise; it never returns
  \<open>decreasing with depth\<close> or the insufficient-points label there.
\<close>

theorem trend_label_classification:
  "(length vs < 12 \<longrightarrow>
      trend_label vs = Inr ''insufficient points''
      \<and> chat_trend_label vs = Inr ''insufficient points for trend'')
   \<and> (12 \<le> length vs \<and> (\<forall>x \<in> set vs. x = c) \<longrightarrow>
      trend_label vs = Inr ''mostly stable'' \<and> chat_trend_label vs = Inr ''mostly stable'')
   \<and> (length vs = 20 \<and> sorted_wrt (<) vs \<longrightarrow>
      trend_label vs = Inr (if relative_change vs \<ge> 8 / 100 then ''increasing with depth''
                            else ''mostly stable'')
      \<and> chat_trend_label vs = Inr (if relative_change vs \<ge> 8 / 100 then ''increasing with depth''
                                   else ''mostly stable''))"
proof -
  have short: "length vs < 12 \<longrightarrow>
      trend_label vs = Inr ''insufficient points''
      \<and> chat_trend_label vs = Inr ''insufficient points for trend''"
    by (simp add: trend_label_def chat_trend_label_def trend_label_with_short)
  have const: "12 \<le> length vs \<and> (\<forall>x \<in> set vs. x = c) \<longrightarrow>
      trend_label vs = Inr ''mostly stable'' \<and> chat_trend_label vs = Inr ''mostly stable''"
  proof
    assume a: "12 \<le> length vs \<and> (\<forall>x \<in> set vs. x = c)"
    then have "12 \<le> length vs" and "\<forall>x \<in> set vs. x = c" by simp_all
    then have "relative_change vs = 0" by (rule relative_change_constant)
    with a show "trend_label vs = Inr ''mostly stable'' \<and> chat_trend_label vs = Inr ''mostly stable''"
      by (simp add: trend_label_def chat_trend_label_def trend_label_with_long)
  qed
  have incr: "length vs = 20 \<and> sorted_wrt (<) vs \<longrightarrow>
      trend_label vs = Inr (if relative_change vs \<ge> 8 / 100 then ''increasing with depth''
                            else ''mostly stable'')
      \<and> chat_trend_label vs = Inr (if relative_change vs \<ge> 8 / 100 then ''increasing with depth''
                                   else ''mostly stable'')"
  proof
    assume a: "length vs = 20 \<and> sorted_wrt (<) vs"
    then have len: "12 \<le> length vs" by simp
    from a have "0 < relative_change vs" by (simp add: relative_change_increasing)
    then have "\<not> relative_change vs \<le> - (8 / 100)" by simp
    then show "trend_label vs = Inr (if relative_change vs \<ge> 8 / 100 then ''increasing with depth''
                            else ''mostly stable'')
      \<and> chat_trend_label vs = Inr (if relative_change vs \<ge> 8 / 100 then ''increasing with depth''
                                   else ''mostly stable'')"
      by (simp add: trend_label_def chat_trend_label_def trend_label_with_long [OF len])
  qed
  from short const incr show ?thesis by (intro conjI)
qed

theorem trend_label_increasing_counterexample:
  "length [1000, 1001, 1002, 1003, 1004, 1005, 1006, 1007, 1008, 1009, 1010, 1011, 1012, 1013, 1014, 1015, 1016, 1017, 1018, 1019 :: real] = 20
   \<and> sorted_wrt (<) [1000, 1001, 1002, 1003, 1004, 1005, 1006, 1007, 1008, 1009, 1010, 1011, 1012, 1013, 1014, 1015, 1016, 1017, 1018, 1019 :: real]
   \<and> trend_label [1000, 1001, 1002, 1003, 1004, 1005, 1006, 1007, 1008, 1009, 1010, 1011, 1012, 1013, 1014, 1015, 1016, 1017, 1018, 1019] = Inr ''mostly stable''
   \<and> chat_trend_label [1000, 1001, 1002, 1003, 1004, 1005, 1006, 1007, 1008, 1009, 1010, 1011, 1012, 1013, 1014, 1015, 1016, 1017, 1018, 1019] = Inr ''mostly stable''"
proof -
  define vs where "vs = [1000, 1001, 1002, 1003, 1004, 1005, 1006, 1007, 1008, 1009, 1010, 1011, 1012, 1013, 1014, 1015, 1016, 1017, 1018, 1019 :: real]"
  have len: "length vs = 20" by (simp add: vs_def)
  have inc: "sorted_wrt (<) vs" by (simp add: vs_def)
  have rc: "relative_change vs = 32 / 2035"
    by (simp add: relative_change_def vs_def)
  have long: "12 \<le> length vs" using len by simp
  have "trend_label vs = Inr ''mostly stable''" and "chat_trend_label vs = Inr ''mostly stable''"
    by (simp_all add: trend_label_def chat_trend_label_def trend_label_with_long [OF long] rc)
  with len inc show ?thesis unfolding vs_def by simp
qed

theorem trend_label_classification_witness:
  "length [1, 2, 3, 4, 5 :: real] < 12
   \<and> trend_label [1, 2, 3, 4, 5] = Inr ''insufficient points''
   \<and> chat_trend_label [1, 2, 3, 4, 5] = Inr ''insufficient points for trend''
   \<and> 12 \<le> length [7, 7, 7, 7, 7, 7, 7, 7, 7, 7, 7, 7 :: real]
   \<and> trend_label [7, 7, 7, 7, 7, 7, 7, 7, 7, 7, 7, 7] = Inr ''mostly stable''
   \<and> length [1, 2, 3, 4, 5, 6, 7, 8, 9, 10, 11, 12, 13, 14, 15, 16, 17, 18, 19, 20 :: real] = 20 \<and> sorted_wrt (<) [1, 2, 3, 4, 5, 6, 7, 8, 9, 10, 11, 12, 13, 14, 15, 16, 17, 18, 19, 20 :: real]
   \<and> trend_label [1, 2, 3, 4, 5, 6, 7, 8, 9, 10, 11, 12, 13, 14, 15, 16, 17, 18, 19, 20] = Inr ''increasing with depth''
   \<and> chat_trend_label [1, 2, 3, 4, 5, 6, 7, 8, 9, 10, 11, 12, 13, 14, 15, 16, 17, 18, 19, 20] = Inr ''increasing with depth''"
proof -
  define short where "short = [1, 2, 3, 4, 5 :: real]"
  define const where "const = [7, 7, 7, 7, 7, 7, 7, 7, 7, 7, 7, 7 :: real]"
  define incr where "incr = [1, 2, 3, 4, 5, 6, 7, 8, 9, 10, 11, 12, 13, 14, 15, 16, 17, 18, 19, 20 :: real]"
  have s: "length short < 12" by (simp add: short_def)
  have c: "12 \<le> length const \<and> (\<forall>x \<in> set const. x = 7)" by (simp add: const_def)
  have i: "length incr = 20 \<and> sorted_wrt (<) incr" by (simp add: incr_def)
  have rc: "relative_change incr \<ge> 8 / 100"
    by (simp add: relative_change_def incr_def)
  have a: "trend_label short = Inr ''insufficient points''
      \<and> chat_trend_label short = Inr ''insufficient points for trend''"
    by (rule trend_label_classification [of short 0, THEN conjunct1, THEN mp, OF s])
  have "trend_label const = Inr ''mostly stable'' \<and> chat_trend_label const = Inr ''mostly stable''"
    by (rule trend_label_classification [of const 7, THEN conjunct2, THEN conjunct1, THEN mp, OF c])
  then have b: "trend_label const = Inr ''mostly stable''" by (rule conjunct1)
  note trend_label_classification [of incr 0, THEN conjunct2, THEN conjunct2, THEN mp, OF i]
  with rc have d: "trend_label incr = Inr ''increasing with depth''
      \<and> chat_trend_label incr = Inr ''increasing with depth''" by simp
  from s a c b i d show ?thesis unfolding short_def const_def incr_def by simp
qed

subsection \<open>Row sampling\<close>

lemma slice_step_one: "slice_step (Suc 0) xs = xs"
  by (induction xs) simp_all

lemma map_filter_replicate:
  "List.map_filter f (replicate n x) = (case f x of None \<Rightarrow> [] | Some y \<Rightarrow> replicate n y)"
  by (induction n) (simp_all add: List.map_filter_simps split: option.splits)

text \<open>
  C2. The claim says that above the cap the rows are subsampled with the stride
  \<open>\<lceil>n / cap\<rceil>\<close>, so that at most \<open>cap\<close> rows are processed. The code divides with
  \<open>//\<close>, which rounds down: 6999 rows get the stride 1 on the chat path, and 7999 rows
  the stride 1 on the interpretation path, so every one of them is processed.
\<close>

theorem sampling_exceeds_cap:
  "max 1 (6999 div 3500) = (1 :: nat)
   \<and> sampled_rows (replicate 6999 (0 :: nat)) = replicate 6999 0
   \<and> length (sampled_rows (replicate 6999 (0 :: nat))) = 6999
   \<and> curve_pairs (replicate 7999 [''depth'' \<mapsto> Some 1, ''HC1'' \<mapsto> Some 2]) ''HC1'' 4000
       = Inr (replicate 7999 (1, 2))"
proof -
  have a: "sampled_rows (replicate 6999 (0 :: nat)) = replicate 6999 0"
    by (simp add: sampled_rows_def slice_step_one)
  have ne: "replicate 7999 [''depth'' \<mapsto> Some (1 :: real), ''HC1'' \<mapsto> Some 2] \<noteq> []"
    by simp
  have b: "curve_pairs (replicate 7999 [''depth'' \<mapsto> Some 1, ''HC1'' \<mapsto> Some 2]) ''HC1'' 4000
       = Inr (replicate 7999 (1, 2))"
    unfolding curve_pairs_def using ne
    by (simp add: slice_step_one map_filter_replicate safe_float_def dict_get_def)
  from a b show ?thesis by simp
qed

subsection \<open>Mentioned curves\<close>

text \<open>
  C1. The claim says that for the message "what about ROP(ft/hr) trend" and the candidate
  curves ROP(ft/hr) and ROP only the longer name is returned. The code sorts the
  candidates longest first, but then tests each one against the whole message on its
  own: ROP is a substring of the message too, so both names are returned.
\<close>

theorem extract_mentioned_curves_returns_both:
  "extract_mentioned_curves ''what about ROP(ft/hr) trend'' [''ROP(ft/hr)'', ''ROP'']
     = [''ROP(ft/hr)'', ''ROP'']"
  by code_simp

subsection \<open>Parsed data rows\<close>

lemma build_values_lookup:
  "build_values null_val mns row mn =
     (if mn \<in> set mns then Some (stored_cell null_val (row mn)) else None)"
proof -
  have "(case row_get null_val row k of Some v \<Rightarrow> Some (py_round v 4) | None \<Rightarrow> None)
      = stored_cell null_val (row k)" for k
    by (simp add: row_get_def replace_null_def stored_cell_def split: option.splits cell.splits)
  then show ?thesis
    by (simp add: build_values_def fold_map_upd)
qed

lemma dom_build_values: "dom (build_values null_val mns row) = set mns"
  by (auto simp: build_values_lookup dom_def)

lemma row_get_depth:
  "row_get null_val row depth_col =
     (if has_depth depth_col null_val row
      then (case row depth_col of Some (Num d) \<Rightarrow> Some d | _ \<Rightarrow> None) else None)"
  by (simp add: row_get_def replace_null_def has_depth_def split: option.splits cell.splits)

text \<open>
  C4. The emitted rows are, in order, the records whose depth cell is present (neither
  missing, NaN nor equal to \<open>null_value\<close>); every other record is dropped. For each
  emitted row the depth is the raw depth rounded to 4 decimals, the key set of its
  values is exactly the set of curve mnemonics of the well, and for every mnemonic the
  stored value is \<open>None\<close> when the raw cell is NaN or equals \<open>null_value\<close> and the raw
  value rounded to 4 decimals otherwise.
\<close>

theorem extract_data_rows_cells:
  "list_all2
     (\<lambda>row out.
        (\<exists>d. row depth_col = Some (Num d) \<and> d \<noteq> null_val \<and> parsed_depth out = py_round d 4)
        \<and> dom (parsed_values out) = set mns
        \<and> (\<forall>mn \<in> set mns.
              parsed_values out mn = Some (stored_cell null_val (row mn))
              \<and> (row mn = Some NaN \<or> row mn = Some (Num null_val) \<longrightarrow>
                    parsed_values out mn = Some None)
              \<and> (\<forall>v. row mn = Some (Num v) \<and> v \<noteq> null_val \<longrightarrow>
                    parsed_values out mn = Some (Some (py_round v 4)))))
     (filter (has_depth depth_col null_val) records)
     (extract_data_rows depth_col null_val mns records)"
proof (induction records)
  case Nil
  show ?case by (simp add: extract_data_rows_def List.map_filter_simps)
next
  case (Cons row records)
  show ?case
  proof (cases "has_depth depth_col null_val row")
    case False
    then have "extract_data_rows depth_col null_val mns (row # records)
        = extract_data_rows depth_col null_val mns records"
      by (simp add: extract_data_rows_def List.map_filter_simps row_get_depth)
    with False Cons show ?thesis by simp
  next
    case True
    then obtain d where d: "row depth_col = Some (Num d)" "d \<noteq> null_val"
      by (auto simp: has_depth_def split: option.splits cell.splits)
    then have "extract_data_rows depth_col null_val mns (row # records)
        = \<lparr>parsed_depth = py_round d 4, parsed_values = build_values null_val mns row\<rparr>
          # extract_data_rows depth_col null_val mns records"
      using True by (simp add: extract_data_rows_def List.map_filter_simps row_get_depth)
    moreover have "\<forall>mn \<in> set mns.
        build_values null_val mns row mn = Some (stored_cell null_val (row mn))
        \<and> (row mn = Some NaN \<or> row mn = Some (Num null_val) \<longrightarrow>
              build_values null_val mns row mn = Some None)
        \<and> (\<forall>v. row mn = Some (Num v) \<and> v \<noteq> null_val \<longrightarrow>
              build_values null_val mns row mn = Some (Some (py_round v 4)))"
      by (auto simp: build_values_lookup stored_cell_def)
    ultimately show ?thesis
      using True Cons d by (simp add: dom_build_values stored_cell_def)
  qed
qed

theorem extract_data_rows_cells_witness:
  "length (extract_data_rows ''DEPT'' (- 9999) [''HC1'', ''HC2'']
       [[''DEPT'' \<mapsto> Num 100, ''HC1'' \<mapsto> Num 5, ''HC2'' \<mapsto> NaN],
        [''DEPT'' \<mapsto> NaN, ''HC1'' \<mapsto> Num 6, ''HC2'' \<mapsto> Num 7],
        [''DEPT'' \<mapsto> Num 101, ''HC1'' \<mapsto> Num (- 9999), ''HC2'' \<mapsto> Num 8]]) = 2
   \<and> dom (parsed_values (extract_data_rows ''DEPT'' (- 9999) [''HC1'', ''HC2'']
       [[''DEPT'' \<mapsto> Num 100, ''HC1'' \<mapsto> Num 5, ''HC2'' \<mapsto> NaN],
        [''DEPT'' \<mapsto> NaN, ''HC1'' \<mapsto> Num 6, ''HC2'' \<mapsto> Num 7],
        [''DEPT'' \<mapsto> Num 101, ''HC1'' \<mapsto> Num (- 9999), ''HC2'' \<mapsto> Num 8]] ! 1))
       = set [''HC1'', ''HC2'']
   \<and> parsed_values (extract_data_rows ''DEPT'' (- 9999) [''HC1'', ''HC2'']
       [[''DEPT'' \<mapsto> Num 100, ''HC1'' \<mapsto> Num 5, ''HC2'' \<mapsto> NaN],
        [''DEPT'' \<mapsto> NaN, ''HC1'' \<mapsto> Num 6, ''HC2'' \<mapsto> Num 7],
        [''DEPT'' \<mapsto> Num 101, ''HC1'' \<mapsto> Num (- 9999), ''HC2'' \<mapsto> Num 8]] ! 1) ''HC1''
       = Some None"
proof -
  define r1 :: "string \<rightharpoonup> cell" where
    "r1 = [''DEPT'' \<mapsto> Num 100, ''HC1'' \<mapsto> Num 5, ''HC2'' \<mapsto> NaN]"
  define r2 :: "string \<rightharpoonup> cell" where
    "r2 = [''DEPT'' \<mapsto> NaN, ''HC1'' \<mapsto> Num 6, ''HC2'' \<mapsto> Num 7]"
  define r3 :: "string \<rightharpoonup> cell" where
    "r3 = [''DEPT'' \<mapsto> Num 101, ''HC1'' \<mapsto> Num (- 9999), ''HC2'' \<mapsto> Num 8]"
  define mns where "mns = [''HC1'', ''HC2'']"
  define out where "out = extract_data_rows ''DEPT'' (- 9999) mns [r1, r2, r3]"
  have d1: "has_depth ''DEPT'' (- 9999) r1" by (simp add: has_depth_def r1_def)
  have d2: "\<not> has_depth ''DEPT'' (- 9999) r2" by (simp add: has_depth_def r2_def)
  have d3: "has_depth ''DEPT'' (- 9999) r3" by (simp add: has_depth_def r3_def)
  have kept: "filter (has_depth ''DEPT'' (- 9999)) [r1, r2, r3] = [r1, r3]"
    using d1 d2 d3 by simp
  note rel = extract_data_rows_cells [of "''DEPT''" "- 9999" mns "[r1, r2, r3]",
      unfolded kept, folded out_def]
  have len: "length out = 2"
    using list_all2_lengthD [OF rel] by simp
  have lt: "1 < length [r1, r3]" by simp
  have nth: "[r1, r3] ! 1 = r3" by simp
  note row = list_all2_nthD [OF rel lt, unfolded nth]
  note keys = row [THEN conjunct2, THEN conjunct1]
  have mem: "''HC1'' \<in> set mns" by (simp add: mns_def)
  have null: "r3 ''HC1'' = Some NaN \<or> r3 ''HC1'' = Some (Num (- 9999))"
    by (simp add: r3_def)
  note per = bspec [OF row [THEN conjunct2, THEN conjunct2] mem]
  note v = mp [OF per [THEN conjunct2, THEN conjunct1] null]
  from len keys v show ?thesis
    unfolding out_def mns_def r1_def r2_def r3_def by (intro conjI)
qed

subsection \<open>The deterministic interpreter\<close>

lemma py_index_first: "xs \<noteq> [] \<Longrightarrow> \<exists>v. py_index xs 0 = Inr v"
  by (simp add: py_index_def)

lemma py_index_second:
  "xs \<noteq> [] \<Longrightarrow> \<exists>v. (if length xs > 1 then py_index xs 1 else py_index xs 0) = Inr v"
  by (simp add: py_index_def)

lemma floor_positive: "py_max x (1 / 10 ^ 9) \<noteq> 0"
  by (simp add: py_max_def)

lemma py_div_floor: "\<exists>v. py_div a (py_max x (1 / 10 ^ 9)) = Inr v"
  using floor_positive [of x] by (simp add: py_div_def)

lemma py_div_floor_eq: "p = py_max x (1 / 10 ^ 9) \<Longrightarrow> \<exists>v. py_div a p = Inr v"
  using py_div_floor by simp

lemma guarded_div_floor:
  "\<exists>v. (if c then py_div a (py_max x (1 / 10 ^ 9)) else Inr d) = Inr v"
  using py_div_floor by simp

lemma guarded_div_positive: "\<exists>v. (if (t :: real) > 0 then py_div h t else Inr 0) = Inr v"
  by (simp add: py_div_def)

lemma sorted_by_mean_Nil: "sorted_by_mean st cs = [] \<longleftrightarrow> cs = []"
  by (metis sorted_by_mean_def length_sort length_0_conv)

lemma curve_pairs_default: "\<exists>ps. curve_pairs sd c 4000 = Inr ps"
  by (simp add: curve_pairs_def Let_def)

lemma py_index_in_range:
  "0 \<le> i \<Longrightarrow> i < int (length xs) \<Longrightarrow> py_index xs i = Inr (xs ! nat i)"
  by (simp add: py_index_def)

text \<open>On at least 8 values the 0.9 percentile reads two positions inside the list.\<close>

lemma percentile_ninety:
  assumes "8 \<le> length vs"
  shows "\<exists>v. percentile vs (9 / 10) = Inr (Some v)"
proof -
  define n where "n = length vs"
  define pos where "pos = 9 / 10 * real (n - 1)"
  define lo where "lo = py_int pos"
  define hi where "hi = min (lo + 1) (int n - 1)"
  have n: "8 \<le> n" using assms by (simp add: n_def)
  have len: "length (sort vs) = n" by (simp add: n_def)
  have pos0: "0 \<le> pos" by (simp add: pos_def)
  have posn: "pos \<le> real (n - 1)" by (simp add: pos_def)
  have lo_eq: "lo = \<lfloor>pos\<rfloor>" using pos0 by (simp add: lo_def py_int_def)
  have lo0: "0 \<le> lo" using pos0 by (simp add: lo_eq)
  have "\<lfloor>pos\<rfloor> \<le> \<lfloor>real (n - 1)\<rfloor>" using posn by (rule floor_mono)
  then have lon: "lo \<le> int (n - 1)" by (simp add: lo_eq)
  then have lo_lt: "lo < int (length (sort vs))" using n len by simp
  have hi0: "0 \<le> hi" using lo0 n by (simp add: hi_def)
  have hi_lt: "hi < int (length (sort vs))" using n len by (simp add: hi_def)
  have a: "py_index (sort vs) lo = Inr (sort vs ! nat lo)"
    using lo0 lo_lt by (rule py_index_in_range)
  have b: "py_index (sort vs) hi = Inr (sort vs ! nat hi)"
    using hi0 hi_lt by (rule py_index_in_range)
  have ne: "vs \<noteq> []" using assms by auto
  have n1: "length (sort vs) \<noteq> 1" using n len by simp
  have "percentile vs (9 / 10)
      = Inr (Some (sort vs ! nat lo + (pos - of_int lo) * (sort vs ! nat hi - sort vs ! nat lo)))"
    unfolding percentile_def Let_def
    using ne n1 a b
    by (simp only: if_False len pos_def [symmetric] lo_def [symmetric] hi_def [symmetric]
        sum.case)
  then show ?thesis by blast
qed

lemma bind_err_Inr: "bind_err (Inr v) f = f v"
  by (simp add: bind_err_def)

lemma high_interval_returns: "\<exists>r. high_interval sd c = Inr r"
proof -
  obtain ps where ps: "curve_pairs sd c 4000 = Inr ps"
    using curve_pairs_default by blast
  show ?thesis
  proof (cases "length ps < 8")
    case True
    then show ?thesis by (simp add: high_interval_def ps bind_err_Inr)
  next
    case False
    then have "8 \<le> length (map snd ps)" by simp
    then obtain th where th: "percentile (map snd ps) (9 / 10) = Inr (Some th)"
      using percentile_ninety by blast
    show ?thesis
      using False
      by (cases "map fst (filter (\<lambda>(d, v). v \<ge> th) ps)")
         (simp_all add: high_interval_def ps th bind_err_Inr)
  qed
qed

lemma gas_shows_of_returns: "\<exists>g. gas_shows_of fmt sd p s = Inr g"
proof -
  obtain i1 where i1: "high_interval sd p = Inr i1" using high_interval_returns by blast
  obtain i2 where i2: "high_interval sd s = Inr i2" using high_interval_returns by blast
  show ?thesis by (simp add: gas_shows_of_def i1 i2 bind_err_Inr)
qed

lemma zone_entry_returns: "\<exists>z. zone_entry fmt top3 overall i a b = Inr z"
proof -
  obtain r where "(if overall > 0 then py_div i (py_max overall (1 / 10 ^ 9)) else Inr 0) = Inr r"
    using guarded_div_floor by blast
  then show ?thesis
    unfolding zone_entry_def by (simp only: bind_err_Inr) blast
qed

text \<open>Rules that walk through the body of \<open>fallback_interpretation\<close>: a \<open>let\<close> keeps
  the equation of its variable, a statement that may raise has to return.\<close>

lemma interp_let: "(\<And>x. x = a \<Longrightarrow> is_interpretation (f x)) \<Longrightarrow> is_interpretation (Let a f)"
  by simp

lemma interp_if:
  "(c \<Longrightarrow> is_interpretation a) \<Longrightarrow> (\<not> c \<Longrightarrow> is_interpretation b)
     \<Longrightarrow> is_interpretation (if c then a else b)"
  by simp

lemma interp_bind:
  "\<exists>v. r = Inr v \<Longrightarrow> (\<And>v. is_interpretation (f v)) \<Longrightarrow> is_interpretation (bind_err r f)"
  by (auto simp: bind_err_def)

lemma interp_insufficient:
  "is_interpretation (Inr (insufficient_interpretation fmt wname a b))"
  by (simp add: is_interpretation_def insufficient_interpretation_def interpretation_keys_def)

lemma interp_derived:
  "is_interpretation (Inr (derived_interpretation fmt a b p s pm sm w bal ch ft gs zs var sr sat))"
  by (simp add: is_interpretation_def derived_interpretation_def interpretation_keys_def)

lemma ranked_hydro_not_empty:
  assumes "valid \<noteq> []"
    and "hydro = filter is_hydro_name valid"
    and "cands = (if hydro = [] then take 4 (sorted_by_mean st valid) else hydro)"
    and "ranked = sorted_by_mean st cands"
  shows "ranked \<noteq> []"
proof -
  have "take 4 (sorted_by_mean st valid) \<noteq> []"
    using assms(1) by (simp add: sorted_by_mean_Nil)
  then have "cands \<noteq> []" using assms(3) by simp
  then show ?thesis using assms(4) by (simp add: sorted_by_mean_Nil)
qed

lemma fallback_is_interpretation:
  "is_interpretation (fallback_interpretation fmt wname cs depth_min depth_max statistics sd)"
  unfolding fallback_interpretation_def
  apply (rule interp_let)+
  apply (rule interp_if)
   apply (rule interp_insufficient)
  apply (rule interp_let)+
  apply (rule interp_bind)
   apply (rule py_index_first)
   apply (erule (3) ranked_hydro_not_empty)
  apply (rule interp_bind)
   apply (rule py_index_second)
   apply (erule (3) ranked_hydro_not_empty)
  apply (rule interp_let)+
  apply (rule interp_bind)
   apply (rule guarded_div_positive)
  apply (rule interp_bind)
   apply (rule guarded_div_floor)
  apply (rule interp_bind)
   apply (rule guarded_div_floor)
  apply (rule interp_let)+
  apply (rule interp_bind)
   apply (rule gas_shows_of_returns)
  apply (rule interp_let)+
  apply (rule interp_bind)
   apply (rule zone_entry_returns)
  apply (rule interp_bind)
   apply (rule zone_entry_returns)
  apply (rule interp_bind)
   apply (rule zone_entry_returns)
  apply (rule interp_let)+
  apply (rule interp_bind)
   apply (erule py_div_floor_eq)
  apply (rule interp_let)+
  apply (rule interp_derived)
  done

lemma let_eqI: "(\<And>x. x = a \<Longrightarrow> f x = r) \<Longrightarrow> Let a f = r"
  by simp

lemma if_true_eqI: "c \<Longrightarrow> a = r \<Longrightarrow> (if c then a else b) = r"
  by simp

lemma fallback_no_valid_curve:
  assumes "\<forall>c \<in> set cs. stat_non_null statistics c = 0"
  shows "fallback_interpretation fmt wname cs depth_min depth_max statistics sd
       = Inr (insufficient_interpretation fmt wname depth_min depth_max)"
proof -
  have v: "filter (\<lambda>c. stat_non_null statistics c > 0) cs = []"
    using assms by (simp add: filter_empty_conv)
  show ?thesis
    unfolding fallback_interpretation_def
    apply (rule let_eqI)
    apply (rule let_eqI)
    apply (rule if_true_eqI)
     apply (simp only: v)
    apply (rule refl)
    done
qed

lemma insufficient_fields:
  "json_get (insufficient_interpretation fmt wname a b) ''gas_shows'' = Some (JArr [])"
  "json_get (insufficient_interpretation fmt wname a b) ''zones'' = Some (JArr [])"
  "Option.bind (json_get (insufficient_interpretation fmt wname a b) ''risk_profile'')
     (\<lambda>rp. json_get rp ''seal_risk'') = Some (JStr ''High'')"
  "Option.bind (json_get (insufficient_interpretation fmt wname a b) ''risk_profile'')
     (\<lambda>rp. json_get rp ''saturation_risk'') = Some (JStr ''High'')"
  "json_get (insufficient_interpretation fmt wname a b) ''recommendations''
     = Some (JArr [JStr ''Verify data quality and null-value handling for the selected interval.'',
                   JStr ''Expand depth interval or include additional valid curves before interpretation.''])"
  by (simp_all add: json_get_def insufficient_interpretation_def)

lemma interpretation_not_empty:
  assumes "is_interpretation r"
  shows "\<exists>j. r = Inr j \<and> j \<noteq> JObj []"
proof (cases r)
  case (Inl e)
  with assms show ?thesis by (simp add: is_interpretation_def)
next
  case (Inr j)
  with assms show ?thesis
    by (cases j) (auto simp: is_interpretation_def interpretation_keys_def)
qed

text \<open>
  C8. The deterministic interpreter never raises: for every input it returns a JSON
  object with exactly the eight keys of the schema, so never an empty object. When no
  supplied curve has a valid sample (every curve's \<open>non_null_count\<close> is 0) it returns the
  fixed insufficient-data interpretation: \<open>seal_risk\<close> and \<open>saturation_risk\<close> are
  \<open>High\<close>, \<open>zones\<close> and \<open>gas_shows\<close> are empty, and there are exactly two generic
  recommendations.
\<close>

theorem fallback_interpretation_never_raises:
  "is_interpretation (fallback_interpretation fmt wname cs depth_min depth_max statistics sd)
   \<and> (\<exists>j. fallback_interpretation fmt wname cs depth_min depth_max statistics sd = Inr j
          \<and> j \<noteq> JObj [])
   \<and> ((\<forall>c \<in> set cs. stat_non_null statistics c = 0) \<longrightarrow>
        (\<exists>j. fallback_interpretation fmt wname cs depth_min depth_max statistics sd = Inr j
           \<and> j = insufficient_interpretation fmt wname depth_min depth_max
           \<and> json_get j ''gas_shows'' = Some (JArr [])
           \<and> json_get j ''zones'' = Some (JArr [])
           \<and> Option.bind (json_get j ''risk_profile'') (\<lambda>rp. json_get rp ''seal_risk'')
               = Some (JStr ''High'')
           \<and> Option.bind (json_get j ''risk_profile'') (\<lambda>rp. json_get rp ''saturation_risk'')
               = Some (JStr ''High'')
           \<and> json_get j ''recommendations''
               = Some (JArr [JStr ''Verify data quality and null-value handling for the selected interval.'',
                             JStr ''Expand depth interval or include additional valid curves before interpretation.''])))"
proof -
  let ?r = "fallback_interpretation fmt wname cs depth_min depth_max statistics sd"
  have total: "is_interpretation ?r" by (rule fallback_is_interpretation)
  then have nonempty: "\<exists>j. ?r = Inr j \<and> j \<noteq> JObj []" by (rule interpretation_not_empty)
  have fixed: "(\<forall>c \<in> set cs. stat_non_null statistics c = 0) \<longrightarrow>
        (\<exists>j. ?r = Inr j
           \<and> j = insufficient_interpretation fmt wname depth_min depth_max
           \<and> json_get j ''gas_shows'' = Some (JArr [])
           \<and> json_get j ''zones'' = Some (JArr [])
           \<and> Option.bind (json_get j ''risk_profile'') (\<lambda>rp. json_get rp ''seal_risk'')
               = Some (JStr ''High'')
           \<and> Option.bind (json_get j ''risk_profile'') (\<lambda>rp. json_get rp ''saturation_risk'')
               = Some (JStr ''High'')
           \<and> json_get j ''recommendations''
               = Some (JArr [JStr ''Verify data quality and null-value handling for the selected interval.'',
                             JStr ''Expand depth interval or include additional valid curves before interpretation.'']))"
  proof
    assume "\<forall>c \<in> set cs. stat_non_null statistics c = 0"
    then have "?r = Inr (insufficient_interpretation fmt wname depth_min depth_max)"
      by (rule fallback_no_valid_curve)
    then show "\<exists>j. ?r = Inr j
           \<and> j = insufficient_interpretation fmt wname depth_min depth_max
           \<and> json_get j ''gas_shows'' = Some (JArr [])
           \<and> json_get j ''zones'' = Some (JArr [])
           \<and> Option.bind (json_get j ''risk_profile'') (\<lambda>rp. json_get rp ''seal_risk'')
               = Some (JStr ''High'')
           \<and> Option.bind (json_get j ''risk_profile'') (\<lambda>rp. json_get rp ''saturation_risk'')
               = Some (JStr ''High'')
           \<and> json_get j ''recommendations''
               = Some (JArr [JStr ''Verify data quality and null-value handling for the selected interval.'',
                             JStr ''Expand depth interval or include additional valid curves before interpretation.''])"
      using insufficient_fields [of fmt wname depth_min depth_max] by simp
  qed
  from total nonempty fixed show ?thesis by (intro conjI)
qed

theorem fallback_interpretation_never_raises_witness:
  "stat_non_null
     [''HC1'' \<mapsto> \<lparr>min_stat = None, max_stat = None, mean_stat = None, count_stat = 3,
                     non_null_count = 0\<rparr>] ''HC1'' = 0
   \<and> fallback_interpretation (\<lambda>x. ''0'') ''W'' [''HC1''] 100 200
        [''HC1'' \<mapsto> \<lparr>min_stat = None, max_stat = None, mean_stat = None, count_stat = 3,
                        non_null_count = 0\<rparr>] None
      = Inr (insufficient_interpretation (\<lambda>x. ''0'') ''W'' 100 200)
   \<and> is_interpretation
        (fallback_interpretation (\<lambda>x. ''0'') ''W'' [''HC1''] 100 200
          [''HC1'' \<mapsto> \<lparr>min_stat = None, max_stat = None, mean_stat = None, count_stat = 3,
                          non_null_count = 0\<rparr>] None)"
proof -
  define st :: "string \<rightharpoonup> curve_stats" where
    "st = [''HC1'' \<mapsto> \<lparr>min_stat = None, max_stat = None, mean_stat = None, count_stat = 3,
                          non_null_count = 0\<rparr>]"
  define cs where "cs = [''HC1'']"
  define fmt :: "real \<Rightarrow> string" where "fmt = (\<lambda>x. ''0'')"
  have zero: "stat_non_null st ''HC1'' = 0" by (simp add: stat_non_null_def st_def)
  then have hyp: "\<forall>c \<in> set cs. stat_non_null st c = 0" by (simp add: cs_def)
  note inst = fallback_interpretation_never_raises [of fmt "''W''" cs 100 200 st None]
  note total = inst [THEN conjunct1]
  from mp [OF inst [THEN conjunct2, THEN conjunct2] hyp]
  obtain j where "fallback_interpretation fmt ''W'' cs 100 200 st None = Inr j"
    and "j = insufficient_interpretation fmt ''W'' 100 200"
    by (elim exE conjE)
  then have fixed: "fallback_interpretation fmt ''W'' cs 100 200 st None
      = Inr (insufficient_interpretation fmt ''W'' 100 200)" by simp
  from zero fixed total show ?thesis
    unfolding st_def cs_def fmt_def by (intro conjI)
qed

end
